theory Spec2Isabelle
  imports
    Main
    "HOL-Library.Char_ord"
    "HOL-Library.List_Lexorder"
    "HOL-Library.Product_Lexorder"
begin

section \<open>Python values\<close>

text \<open>
  The values that travel through the pipeline untyped (\<open>Any\<close> in the source): what
  \<open>json.load\<close> produces, floats left out. A dictionary is an association list in
  insertion order with distinct keys, as a Python \<open>dict\<close> keeps it.
\<close>

datatype pyval =
    PNone
  | PBool bool
  | PInt int
  | PStr string
  | PList "pyval list"
  | PDict "(string \<times> pyval) list"

type_synonym row = "(string \<times> pyval) list"

text \<open>\<open>d[k] = v\<close>: an existing key keeps its position, a new key goes last.\<close>

fun dict_setitem :: "('k \<times> 'v) list \<Rightarrow> 'k \<Rightarrow> 'v \<Rightarrow> ('k \<times> 'v) list" where
  "dict_setitem [] k v = [(k, v)]"
| "dict_setitem (p # ps) k v = (if fst p = k then (k, v) # ps else p # dict_setitem ps k v)"

text \<open>\<open>d.update(other)\<close>: the items of \<open>other\<close> are stored in their order.\<close>

fun dict_update :: "('k \<times> 'v) list \<Rightarrow> ('k \<times> 'v) list \<Rightarrow> ('k \<times> 'v) list" where
  "dict_update d [] = d"
| "dict_update d ((k, v) # other) = dict_update (dict_setitem d k v) other"

text \<open>\<open>sep.join(parts)\<close>.\<close>

fun join :: "string \<Rightarrow> string list \<Rightarrow> string" where
  "join sep [] = []"
| "join sep [x] = x"
| "join sep (x # y # ys) = x @ sep @ join sep (y # ys)"

section \<open>Data model (ads\_parser.py, targeting\_parser.py)\<close>

text \<open>
  The dataclasses, field by field. Two attribute names are shared by two classes and
  carry the class here: \<open>impressions\<close> of a surface stat is \<open>surface_impressions\<close>, and
  \<open>first_shown\<close> and \<open>last_shown\<close> of a region stat are \<open>region_first_shown\<close> and
  \<open>region_last_shown\<close>. The fields read from the raw dictionary without conversion
  (\<open>preview_url\<close>, \<open>start_url\<close> and those of a variation) hold whatever value was there.
  A category map of \<open>TargetingInfo\<close> is a dictionary from code to bool.
\<close>

record ImpressionRange =
  lower_bound :: int
  upper_bound :: int

record SurfaceServingStat =
  surface_code :: string
  surface_name :: string
  surface_impressions :: ImpressionRange

record RegionStat =
  region_code :: string
  region_name :: string
  region_first_shown :: string
  region_last_shown :: string
  impressions :: ImpressionRange
  surface_serving_stats :: "SurfaceServingStat list"

record TargetingInfo =
  demographics :: "(string \<times> bool) list"
  geography :: "(string \<times> bool) list"
  contextual :: "(string \<times> bool) list"
  advertiser_list :: "(string \<times> bool) list"

record AdVariation =
  click_url :: pyval
  cta :: pyval
  description :: pyval
  image_url :: pyval

record AdRecord =
  ad_library_url :: string
  advertiser_id :: string
  advertiser_name :: string
  creative_id :: string
  format :: string
  first_shown :: string
  last_shown :: string
  preview_url :: pyval
  start_url :: pyval
  region_stats :: "RegionStat list"
  targeting :: "TargetingInfo option"
  variations :: "AdVariation list"

section \<open>AdRecord.to\_flat\_dicts\<close>

text \<open>\<open>",".join(sorted(k for k, v in m.items() if v))\<close>.\<close>

definition active_codes :: "(string \<times> bool) list \<Rightarrow> pyval" where
  "active_codes m = PStr (join '','' (sort (map fst (filter snd m))))"

definition synthetic_region :: RegionStat where
  "synthetic_region =
     \<lparr>region_code = '''', region_name = '''', region_first_shown = '''',
      region_last_shown = '''', impressions = \<lparr>lower_bound = 0, upper_bound = 0\<rparr>,
      surface_serving_stats = []\<rparr>"

definition synthetic_surface :: SurfaceServingStat where
  "synthetic_surface =
     \<lparr>surface_code = '''', surface_name = '''',
      surface_impressions = \<lparr>lower_bound = 0, upper_bound = 0\<rparr>\<rparr>"

definition synthetic_variation :: AdVariation where
  "synthetic_variation =
     \<lparr>click_url = PNone, cta = PNone, description = PNone, image_url = PNone\<rparr>"

definition base_dict :: "AdRecord \<Rightarrow> row" where
  "base_dict self =
     [(''adLibraryUrl'', PStr (ad_library_url self)),
      (''advertiserId'', PStr (advertiser_id self)),
      (''advertiserName'', PStr (advertiser_name self)),
      (''creativeId'', PStr (creative_id self)),
      (''format'', PStr (format self)),
      (''firstShown'', PStr (first_shown self)),
      (''lastShown'', PStr (last_shown self)),
      (''previewUrl'', preview_url self),
      (''startUrl'', start_url self)]"

definition targeting_dict :: "AdRecord \<Rightarrow> row" where
  "targeting_dict self =
     (case targeting self of
        None \<Rightarrow> []
      | Some t \<Rightarrow>
          [(''targetingDemographicsTrue'', active_codes (demographics t)),
           (''targetingGeographyTrue'', active_codes (geography t)),
           (''targetingContextualTrue'', active_codes (contextual t)),
           (''targetingAdvertiserListTrue'', active_codes (advertiser_list t))])"

definition region_dict :: "RegionStat \<Rightarrow> row" where
  "region_dict region =
     [(''regionCode'', PStr (region_code region)),
      (''regionName'', PStr (region_name region)),
      (''regionFirstShown'', PStr (region_first_shown region)),
      (''regionLastShown'', PStr (region_last_shown region)),
      (''regionImpressionsLower'', PInt (lower_bound (impressions region))),
      (''regionImpressionsUpper'', PInt (upper_bound (impressions region)))]"

definition surface_dict :: "SurfaceServingStat \<Rightarrow> row" where
  "surface_dict surface =
     [(''surfaceCode'', PStr (surface_code surface)),
      (''surfaceName'', PStr (surface_name surface)),
      (''surfaceImpressionsLower'', PInt (lower_bound (surface_impressions surface))),
      (''surfaceImpressionsUpper'', PInt (upper_bound (surface_impressions surface)))]"

definition variation_dict :: "AdVariation \<Rightarrow> row" where
  "variation_dict variation =
     [(''variationClickUrl'', click_url variation),
      (''variationCta'', cta variation),
      (''variationDescription'', description variation),
      (''variationImageUrl'', image_url variation)]"

text \<open>
  The three nested loops append one row per (region, surface, variation), in that
  iteration order; \<open>x or [synthetic]\<close> replaces an empty list.
\<close>

definition to_flat_dicts :: "AdRecord \<Rightarrow> row list" where
  "to_flat_dicts self =
     (let base = base_dict self;
          tdict = targeting_dict self;
          regions = (if region_stats self = [] then [synthetic_region] else region_stats self);
          vars = (if variations self = [] then [synthetic_variation] else variations self)
      in concat (map (\<lambda>region.
           let rdict = region_dict region;
               surfaces = (if surface_serving_stats region = [] then [synthetic_surface]
                           else surface_serving_stats region)
           in concat (map (\<lambda>surface.
                let sdict = surface_dict surface
                in map (\<lambda>variation.
                     dict_update (dict_update (dict_update (dict_update (dict_update []
                       base) rdict) sdict) tdict) (variation_dict variation))
                   vars) surfaces)) regions))"


text \<open>The key groups of a row, in the order the row is filled.\<close>

definition base_keys :: "string list" where
  "base_keys = [''adLibraryUrl'', ''advertiserId'', ''advertiserName'', ''creativeId'',
     ''format'', ''firstShown'', ''lastShown'', ''previewUrl'', ''startUrl'']"

definition region_keys :: "string list" where
  "region_keys = [''regionCode'', ''regionName'', ''regionFirstShown'', ''regionLastShown'',
     ''regionImpressionsLower'', ''regionImpressionsUpper'']"

definition surface_keys :: "string list" where
  "surface_keys = [''surfaceCode'', ''surfaceName'', ''surfaceImpressionsLower'',
     ''surfaceImpressionsUpper'']"

definition targeting_keys :: "string list" where
  "targeting_keys = [''targetingDemographicsTrue'', ''targetingGeographyTrue'',
     ''targetingContextualTrue'', ''targetingAdvertiserListTrue'']"

definition variation_keys :: "string list" where
  "variation_keys = [''variationClickUrl'', ''variationCta'', ''variationDescription'',
     ''variationImageUrl'']"

text \<open>Sample records used to evaluate the functions.\<close>

definition ad_bare :: AdRecord where
  "ad_bare =
     \<lparr>ad_library_url = ''https://adstransparency.google.com/advertiser/AR1/creative/CR1'',
      advertiser_id = ''AR1'', advertiser_name = ''Acme'', creative_id = ''CR1'',
      format = ''IMAGE'', first_shown = ''2023-07-04'', last_shown = ''2024-05-17'',
      preview_url = PNone, start_url = PNone, region_stats = [], targeting = None,
      variations = []\<rparr>"

definition targeting_sample :: TargetingInfo where
  "targeting_sample =
     \<lparr>demographics = [(''GENDER'', True), (''AGE'', True), (''INCOME'', False)],
      geography = [(''COUNTRY'', True)], contextual = [], advertiser_list = [(''CRM'', False)]\<rparr>"

definition ad_targeted :: AdRecord where
  "ad_targeted = ad_bare\<lparr>targeting := Some targeting_sample\<rparr>"

definition region_sample :: "string \<Rightarrow> string \<Rightarrow> SurfaceServingStat list \<Rightarrow> RegionStat" where
  "region_sample code name surfaces =
     \<lparr>region_code = code, region_name = name, region_first_shown = ''2023-07-04'',
      region_last_shown = ''2024-05-17'', impressions = \<lparr>lower_bound = 100, upper_bound = 200\<rparr>,
      surface_serving_stats = surfaces\<rparr>"

definition surface_sample :: "string \<Rightarrow> SurfaceServingStat" where
  "surface_sample code =
     \<lparr>surface_code = code, surface_name = code,
      surface_impressions = \<lparr>lower_bound = 10, upper_bound = 20\<rparr>\<rparr>"

definition variation_sample :: AdVariation where
  "variation_sample =
     \<lparr>click_url = PStr ''https://example.com'', cta = PStr ''Buy'', description = PNone,
      image_url = PNone\<rparr>"

definition ad_mixed :: AdRecord where
  "ad_mixed =
     ad_bare\<lparr>region_stats :=
                [region_sample ''US'' ''United States''
                   [surface_sample ''SEARCH'', surface_sample ''MAPS''],
                 region_sample ''CA'' ''Canada'' []],
             targeting := Some targeting_sample,
             variations := [variation_sample]\<rparr>"

section \<open>normalize\_region\_stats (utils\_region.py)\<close>

text \<open>
  The function is modelled on values: every entry of the input list is an object of its
  own, with its own impression range and its own surface objects, as
  \<open>_parse_region_stats\<close> builds them. The in-place updates of the canonical (first) region
  of a key become updates of the entry stored under that key; \<open>by_key\<close> and
  \<open>merged_surfaces\<close> are dictionaries in insertion order. An \<open>ImpressionRange\<close> object is
  always truthy, so the guard \<open>if impressions and existing_impressions\<close> always holds.
\<close>

definition region_key :: "RegionStat \<Rightarrow> string \<times> string" where
  "region_key region = (region_code region, region_name region)"

text \<open>\<open>existing.lower_bound += new.lower_bound; existing.upper_bound += new.upper_bound\<close>.\<close>

definition add_impressions :: "ImpressionRange \<Rightarrow> ImpressionRange \<Rightarrow> ImpressionRange" where
  "add_impressions existing_impressions new_impressions =
     existing_impressions
       \<lparr>lower_bound := lower_bound existing_impressions + lower_bound new_impressions,
        upper_bound := upper_bound existing_impressions + upper_bound new_impressions\<rparr>"

text \<open>The \<open>else\<close> branch of the first loop: \<open>region\<close> is merged into \<open>existing\<close>.\<close>

definition merge_region :: "RegionStat \<Rightarrow> RegionStat \<Rightarrow> RegionStat" where
  "merge_region existing region =
     (let region_first = region_first_shown region;
          region_last = region_last_shown region;
          existing_first = region_first_shown existing;
          existing_last = region_last_shown existing
      in existing
           \<lparr>impressions := add_impressions (impressions existing) (impressions region),
            region_first_shown :=
              (if region_first \<noteq> [] \<and> (existing_first = [] \<or> region_first < existing_first)
               then region_first else existing_first),
            region_last_shown :=
              (if region_last \<noteq> [] \<and> (existing_last = [] \<or> region_last > existing_last)
               then region_last else existing_last),
            surface_serving_stats :=
              surface_serving_stats existing @ surface_serving_stats region\<rparr>)"

text \<open>The first loop, over \<open>region_stats\<close>, with \<open>by_key\<close> as accumulator.\<close>

fun group_regions ::
  "((string \<times> string) \<times> RegionStat) list \<Rightarrow> RegionStat list \<Rightarrow>
   ((string \<times> string) \<times> RegionStat) list" where
  "group_regions by_key [] = by_key"
| "group_regions by_key (region # rest) =
     (let key = region_key region
      in case map_of by_key key of
           None \<Rightarrow> group_regions (dict_setitem by_key key region) rest
         | Some existing \<Rightarrow>
             group_regions (dict_setitem by_key key (merge_region existing region)) rest)"

text \<open>The inner loop of the second loop, with \<open>merged_surfaces\<close> as accumulator.\<close>

fun merge_surfaces ::
  "(string \<times> SurfaceServingStat) list \<Rightarrow> SurfaceServingStat list \<Rightarrow>
   (string \<times> SurfaceServingStat) list" where
  "merge_surfaces merged_surfaces [] = merged_surfaces"
| "merge_surfaces merged_surfaces (surface # rest) =
     (let code = surface_code surface
      in case map_of merged_surfaces code of
           None \<Rightarrow> merge_surfaces (dict_setitem merged_surfaces code surface) rest
         | Some existing_surface \<Rightarrow>
             merge_surfaces
               (dict_setitem merged_surfaces code
                  (existing_surface\<lparr>surface_impressions :=
                     add_impressions (surface_impressions existing_surface)
                       (surface_impressions surface)\<rparr>))
               rest)"

text \<open>The body of the second loop for one region.\<close>

definition merge_region_surfaces :: "RegionStat \<Rightarrow> RegionStat" where
  "merge_region_surfaces region =
     region\<lparr>surface_serving_stats :=
       map snd (merge_surfaces [] (surface_serving_stats region))\<rparr>"

text \<open>\<open>sorted\<close> is stable, as \<open>sort_key\<close> is; tuples of strings compare lexicographically.\<close>

definition normalize_region_stats :: "RegionStat list \<Rightarrow> RegionStat list" where
  "normalize_region_stats region_stats_in =
     sort_key region_key
       (map merge_region_surfaces (map snd (group_regions [] region_stats_in)))"

definition us1 :: RegionStat where
  "us1 = \<lparr>region_code = ''US'', region_name = ''United States'', region_first_shown = ''2023-07-04'',
      region_last_shown = ''2024-05-17'', impressions = \<lparr>lower_bound = 100, upper_bound = 200\<rparr>,
      surface_serving_stats = [surface_sample ''SEARCH'', surface_sample ''MAPS'']\<rparr>"
definition us2 :: RegionStat where
  "us2 = \<lparr>region_code = ''US'', region_name = ''United States'', region_first_shown = ''2023-01-15'',
      region_last_shown = '''', impressions = \<lparr>lower_bound = 50, upper_bound = 75\<rparr>,
      surface_serving_stats = [surface_sample ''SEARCH'']\<rparr>"

text \<open>
  Both loops follow one scheme: entries are filed under a key, the first entry of a key
  is stored and every later one is merged into the stored entry. The scheme is stated
  once, for the proofs.
\<close>

fun merge_by ::
  "('a \<Rightarrow> 'k) \<Rightarrow> ('a \<Rightarrow> 'a \<Rightarrow> 'a) \<Rightarrow> ('k \<times> 'a) list \<Rightarrow> 'a list \<Rightarrow> ('k \<times> 'a) list" where
  "merge_by key f d [] = d"
| "merge_by key f d (x # xs) =
     merge_by key f
       (case map_of d (key x) of
          None \<Rightarrow> dict_setitem d (key x) x
        | Some e \<Rightarrow> dict_setitem d (key x) (f e x)) xs"

text \<open>The surface-level merge of two surface stats with the same code.\<close>

definition merge_surface :: "SurfaceServingStat \<Rightarrow> SurfaceServingStat \<Rightarrow> SurfaceServingStat" where
  "merge_surface existing_surface surface =
     existing_surface\<lparr>surface_impressions :=
       add_impressions (surface_impressions existing_surface) (surface_impressions surface)\<rparr>"

text \<open>Keeping the smaller (larger) non-empty date, as the two date guards do.\<close>

definition pick_first :: "string \<Rightarrow> string \<Rightarrow> string" where
  "pick_first existing_first region_first =
     (if region_first \<noteq> [] \<and> (existing_first = [] \<or> region_first < existing_first)
      then region_first else existing_first)"

definition pick_last :: "string \<Rightarrow> string \<Rightarrow> string" where
  "pick_last existing_last region_last =
     (if region_last \<noteq> [] \<and> (existing_last = [] \<or> region_last > existing_last)
      then region_last else existing_last)"

section \<open>Python built-ins used by the parsers\<close>

text \<open>
  The exceptions the parsers can meet. \<open>Inl\<close> of a result is a raised exception.
\<close>

datatype py_error = AttributeError | TypeError | ValueError

definition bind_err :: "'e + 'a \<Rightarrow> ('a \<Rightarrow> 'e + 'b) \<Rightarrow> 'e + 'b" where
  "bind_err m f = (case m of Inl e \<Rightarrow> Inl e | Inr x \<Rightarrow> f x)"

text \<open>\<open>bool(x)\<close>, the truth value of \<open>x\<close> in \<open>if x\<close>, \<open>not x\<close> and \<open>x or y\<close>.\<close>

fun truthy :: "pyval \<Rightarrow> bool" where
  "truthy PNone = False"
| "truthy (PBool b) = b"
| "truthy (PInt n) = (n \<noteq> 0)"
| "truthy (PStr s) = (s \<noteq> [])"
| "truthy (PList xs) = (xs \<noteq> [])"
| "truthy (PDict d) = (d \<noteq> [])"

definition py_or :: "pyval \<Rightarrow> pyval \<Rightarrow> pyval" where
  "py_or x y = (if truthy x then x else y)"

text \<open>
  \<open>x.get(k, dflt)\<close>: only a dictionary has the method; on any other value the
  attribute lookup raises AttributeError.
\<close>

fun py_get :: "pyval \<Rightarrow> string \<Rightarrow> pyval \<Rightarrow> py_error + pyval" where
  "py_get (PDict d) k dflt = Inr (case map_of d k of Some v \<Rightarrow> v | None \<Rightarrow> dflt)"
| "py_get _ k dflt = Inl AttributeError"

text \<open>
  \<open>for item in x\<close>: a list gives its items, a dictionary its keys, a string its
  characters; \<open>None\<close>, a bool and an int are not iterable.
\<close>

fun py_iter :: "pyval \<Rightarrow> py_error + pyval list" where
  "py_iter (PList xs) = Inr xs"
| "py_iter (PDict d) = Inr (map (\<lambda>(k, v). PStr k) d)"
| "py_iter (PStr s) = Inr (map (\<lambda>c. PStr [c]) s)"
| "py_iter _ = Inl TypeError"

text \<open>
  A \<open>char\<close> stands for a code point below 256; strings with code points beyond are
  outside the model. \<open>int(s)\<close> for a string: surrounding whitespace is dropped, then an
  optional sign and decimal digits, groups of digits separated by single underscores.
  The whitespace \<open>int\<close> drops is space, tab, LF, VT, FF, CR and, beyond ASCII, NEL
  (0x85) and the no-break space (0xA0); the separators 0x1C to 0x1F are whitespace for
  \<open>str.strip\<close> and \<open>str.isspace\<close>, not for \<open>int\<close>. A string with more than 4300 digits
  is refused (the default limit of the interpreter).
\<close>

definition int_isspace :: "char \<Rightarrow> bool" where
  "int_isspace c = (c \<in> set [CHR '' '', CHR 0x09, CHR 0x0A, CHR 0x0B, CHR 0x0C, CHR 0x0D,
     CHR 0x85, CHR 0xA0])"

definition py_isspace :: "char \<Rightarrow> bool" where
  "py_isspace c = (c \<in> set [CHR '' '', CHR 0x09, CHR 0x0A, CHR 0x0B, CHR 0x0C, CHR 0x0D,
     CHR 0x1C, CHR 0x1D, CHR 0x1E, CHR 0x1F, CHR 0x85, CHR 0xA0])"

definition strip_with :: "(char \<Rightarrow> bool) \<Rightarrow> string \<Rightarrow> string" where
  "strip_with space s = rev (dropWhile space (rev (dropWhile space s)))"

text \<open>\<open>s.strip()\<close>.\<close>

definition py_strip :: "string \<Rightarrow> string" where
  "py_strip s = strip_with py_isspace s"

definition digit_val :: "char \<Rightarrow> nat option" where
  "digit_val c =
     (if CHR ''0'' \<le> c \<and> c \<le> CHR ''9'' then Some (of_char c - of_char CHR ''0'') else None)"

text \<open>
  \<open>digits_val acc prev s\<close> reads the digits of \<open>s\<close> into \<open>acc\<close>; \<open>prev\<close> says that the
  previous character was a digit, which an underscore needs on its left, as it needs a
  digit on its right.
\<close>

fun digits_val :: "nat \<Rightarrow> bool \<Rightarrow> string \<Rightarrow> nat option" where
  "digits_val acc prev [] = (if prev then Some acc else None)"
| "digits_val acc prev (c # cs) =
     (if c = CHR ''_'' then (if prev \<and> cs \<noteq> [] then digits_val acc False cs else None)
      else case digit_val c of
             None \<Rightarrow> None
           | Some d \<Rightarrow> digits_val (10 * acc + d) True cs)"

definition digits_limited :: "string \<Rightarrow> nat option" where
  "digits_limited s =
     (if length (filter (\<lambda>c. digit_val c \<noteq> None) s) > 4300 then None
      else digits_val 0 False s)"

definition int_of_str :: "string \<Rightarrow> int option" where
  "int_of_str s =
     (case strip_with int_isspace s of
        [] \<Rightarrow> None
      | c # cs \<Rightarrow>
          if c = CHR ''-'' then map_option (\<lambda>n. - int n) (digits_limited cs)
          else if c = CHR ''+'' then map_option int (digits_limited cs)
          else map_option int (digits_limited (c # cs)))"

text \<open>\<open>int(x)\<close>: TypeError for \<open>None\<close> and containers, ValueError for a bad string.\<close>

fun py_int :: "pyval \<Rightarrow> py_error + int" where
  "py_int (PInt n) = Inr n"
| "py_int (PBool b) = Inr (if b then 1 else 0)"
| "py_int (PStr s) = (case int_of_str s of Some n \<Rightarrow> Inr n | None \<Rightarrow> Inl ValueError)"
| "py_int _ = Inl TypeError"

section \<open>The impression-range parsers\<close>

text \<open>
  \<open>_parse_impression_range\<close> of ads\_parser.py. One \<open>try\<close> block holds both conversions
  and its handler catches TypeError and ValueError, resetting both bounds.
\<close>

definition parse_impression_range :: "pyval \<Rightarrow> py_error + ImpressionRange" where
  "parse_impression_range impressions_raw =
     (if \<not> truthy impressions_raw then Inr \<lparr>lower_bound = 0, upper_bound = 0\<rparr>
      else
        bind_err (py_get impressions_raw ''lowerBound'' (PInt 0)) (\<lambda>l.
        bind_err (py_get impressions_raw ''upperBound'' (PInt 0)) (\<lambda>u.
          let lower = py_or l (PInt 0);
              upper = py_or u (PInt 0)
          in case bind_err (py_int lower) (\<lambda>lower_int.
                  bind_err (py_int upper) (\<lambda>upper_int. Inr (lower_int, upper_int))) of
               Inr (lower_int, upper_int) \<Rightarrow>
                 Inr \<lparr>lower_bound = lower_int, upper_bound = upper_int\<rparr>
             | Inl TypeError \<Rightarrow> Inr \<lparr>lower_bound = 0, upper_bound = 0\<rparr>
             | Inl ValueError \<Rightarrow> Inr \<lparr>lower_bound = 0, upper_bound = 0\<rparr>
             | Inl e \<Rightarrow> Inl e)))"

text \<open>
  \<open>_parse_impressions_range\<close> of google\_ads\_parser.py, on two optional strings: each
  bound goes through \<open>to_int\<close> on its own.
\<close>

definition to_int :: "string option \<Rightarrow> int" where
  "to_int val =
     (case val of
        None \<Rightarrow> 0
      | Some s \<Rightarrow>
          if s = [] then 0
          else (case int_of_str (py_strip (filter (\<lambda>c. c \<noteq> CHR '','') s)) of
                  Some n \<Rightarrow> n
                | None \<Rightarrow> 0))"

definition parse_impressions_range :: "string option \<Rightarrow> string option \<Rightarrow> ImpressionRange" where
  "parse_impressions_range lower upper = \<lparr>lower_bound = to_int lower, upper_bound = to_int upper\<rparr>"

text \<open>
  \<open>str(x)\<close>. A string is returned as it is; \<open>None\<close>, bools and ints print as Python
  prints them; a container prints the \<open>repr\<close> of its items. In the \<open>repr\<close> of a string
  the ASCII control characters are escaped and every other character is kept.
\<close>

fun show_nat :: "nat \<Rightarrow> string" where
  "show_nat n =
     (if n < 10 then [char_of (48 + n)]
      else show_nat (n div 10) @ [char_of (48 + n mod 10)])"

definition show_int :: "int \<Rightarrow> string" where
  "show_int i = (if i < 0 then CHR ''-'' # show_nat (nat (- i)) else show_nat (nat i))"

definition hex_digit :: "nat \<Rightarrow> char" where
  "hex_digit n = (if n < 10 then char_of (48 + n) else char_of (87 + n))"

definition repr_char :: "char \<Rightarrow> char \<Rightarrow> string" where
  "repr_char quote c =
     (if c = CHR 0x5C then [CHR 0x5C, CHR 0x5C]
      else if c = quote then [CHR 0x5C, quote]
      else if c = CHR 0x0A then [CHR 0x5C, CHR ''n'']
      else if c = CHR 0x0D then [CHR 0x5C, CHR ''r'']
      else if c = CHR 0x09 then [CHR 0x5C, CHR ''t'']
      else if (of_char c :: nat) < 32 \<or> c = CHR 0x7F
        then [CHR 0x5C, CHR ''x'', hex_digit (of_char c div 16), hex_digit (of_char c mod 16)]
      else [c])"

definition repr_str :: "string \<Rightarrow> string" where
  "repr_str s =
     (let quote = (if CHR 0x27 \<in> set s \<and> CHR 0x22 \<notin> set s then CHR 0x22 else CHR 0x27)
      in quote # concat (map (repr_char quote) s) @ [quote])"

fun py_repr :: "pyval \<Rightarrow> string" where
  "py_repr PNone = ''None''"
| "py_repr (PBool b) = (if b then ''True'' else ''False'')"
| "py_repr (PInt n) = show_int n"
| "py_repr (PStr s) = repr_str s"
| "py_repr (PList xs) = ''['' @ join '', '' (map py_repr xs) @ '']''"
| "py_repr (PDict d) =
     ''{'' @ join '', '' (map (\<lambda>(k, v). repr_str k @ '': '' @ py_repr v) d) @ ''}''"

fun py_str :: "pyval \<Rightarrow> string" where
  "py_str (PStr s) = s"
| "py_str x = py_repr x"

section \<open>parse\_targeting (targeting\_parser.py)\<close>

text \<open>
  \<open>_ensure_bool_map\<close>: a dictionary is copied item by item, \<open>result[str(key)] = bool(value)\<close>
  (the keys of a JSON object are strings already); any other value gives \<open>{}\<close>.
\<close>

fun ensure_bool_map :: "pyval \<Rightarrow> (string \<times> bool) list" where
  "ensure_bool_map (PDict d) =
     foldl (\<lambda>result (key, v). dict_setitem result (py_str (PStr key)) (truthy v)) [] d"
| "ensure_bool_map _ = []"

definition parse_targeting :: "pyval \<Rightarrow> py_error + TargetingInfo option" where
  "parse_targeting targeting_raw =
     (if \<not> truthy targeting_raw then Inr None
      else
        bind_err (py_get targeting_raw ''targetingCategory'' (PDict [])) (\<lambda>category.
        bind_err (py_get category ''demographics'' PNone) (\<lambda>dem.
        bind_err (py_get category ''geography'' PNone) (\<lambda>geo.
        bind_err (py_get category ''contextual'' PNone) (\<lambda>con.
        bind_err (py_get category ''advertiserList'' PNone) (\<lambda>adv.
          Inr (Some \<lparr>demographics = ensure_bool_map dem,
                     geography = ensure_bool_map geo,
                     contextual = ensure_bool_map con,
                     advertiser_list = ensure_bool_map adv\<rparr>)))))))"

section \<open>parse\_ads (ads\_parser.py)\<close>

text \<open>A loop that builds a list and stops at the first exception of its body.\<close>

fun map_err :: "('a \<Rightarrow> 'e + 'b) \<Rightarrow> 'a list \<Rightarrow> 'e + 'b list" where
  "map_err f [] = Inr []"
| "map_err f (x # xs) =
     bind_err (f x) (\<lambda>y. bind_err (map_err f xs) (\<lambda>ys. Inr (y # ys)))"

definition parse_surface_stats :: "pyval \<Rightarrow> py_error + SurfaceServingStat list" where
  "parse_surface_stats surface_stats_raw =
     (if \<not> truthy surface_stats_raw then Inr []
      else
        bind_err (py_iter surface_stats_raw) (map_err (\<lambda>item.
          bind_err (py_get item ''impressions'' (PDict [])) (\<lambda>impressions_raw.
          bind_err (py_get item ''surfaceCode'' (PStr [])) (\<lambda>code.
          bind_err (py_get item ''surfaceName'' (PStr [])) (\<lambda>name.
          bind_err (parse_impression_range impressions_raw) (\<lambda>imp.
            Inr \<lparr>surface_code = py_str code, surface_name = py_str name,
                 surface_impressions = imp\<rparr>)))))))"

definition parse_region_stats :: "pyval \<Rightarrow> py_error + RegionStat list" where
  "parse_region_stats region_stats_raw =
     (if \<not> truthy region_stats_raw then Inr []
      else
        bind_err
          (bind_err (py_iter region_stats_raw) (map_err (\<lambda>item.
            bind_err (py_get item ''impressions'' (PDict [])) (\<lambda>impressions_raw.
            bind_err (py_get item ''surfaceServingStats'' (PList [])) (\<lambda>surface_stats_raw.
            bind_err (py_get item ''regionCode'' (PStr [])) (\<lambda>code.
            bind_err (py_get item ''regionName'' (PStr [])) (\<lambda>name.
            bind_err (py_get item ''firstShown'' (PStr [])) (\<lambda>first.
            bind_err (py_get item ''lastShown'' (PStr [])) (\<lambda>last.
            bind_err (parse_impression_range impressions_raw) (\<lambda>imp.
            bind_err (parse_surface_stats surface_stats_raw) (\<lambda>surfaces.
              Inr \<lparr>region_code = py_str code, region_name = py_str name,
                   region_first_shown = py_str first, region_last_shown = py_str last,
                   impressions = imp, surface_serving_stats = surfaces\<rparr>)))))))))))
          (\<lambda>stats. Inr (normalize_region_stats stats)))"

definition parse_variations :: "pyval \<Rightarrow> py_error + AdVariation list" where
  "parse_variations variations_raw =
     (if \<not> truthy variations_raw then Inr []
      else
        bind_err (py_iter variations_raw) (map_err (\<lambda>item.
          bind_err (py_get item ''clickUrl'' PNone) (\<lambda>click.
          bind_err (py_get item ''cta'' PNone) (\<lambda>cta_raw.
          bind_err (py_get item ''description'' PNone) (\<lambda>desc.
          bind_err (py_get item ''imageUrl'' PNone) (\<lambda>image.
            Inr \<lparr>click_url = click, cta = cta_raw, description = desc,
                 image_url = image\<rparr>)))))))"

text \<open>The body of the \<open>try\<close> block of \<open>parse_ads\<close>: the construction of one record.\<close>

definition ad_record_of_raw :: "pyval \<Rightarrow> py_error + AdRecord" where
  "ad_record_of_raw raw =
     bind_err (py_get raw ''adLibraryUrl'' (PStr [])) (\<lambda>a_url.
     bind_err (py_get raw ''advertiserId'' (PStr [])) (\<lambda>a_id.
     bind_err (py_get raw ''advertiserName'' (PStr [])) (\<lambda>a_name.
     bind_err (py_get raw ''creativeId'' (PStr [])) (\<lambda>c_id.
     bind_err (py_get raw ''format'' (PStr [])) (\<lambda>fmt.
     bind_err (py_get raw ''firstShown'' (PStr [])) (\<lambda>first.
     bind_err (py_get raw ''lastShown'' (PStr [])) (\<lambda>last.
     bind_err (py_get raw ''previewUrl'' PNone) (\<lambda>preview.
     bind_err (py_get raw ''startUrl'' PNone) (\<lambda>start.
     bind_err (py_get raw ''regionStats'' PNone) (\<lambda>region_stats_raw.
     bind_err (parse_region_stats region_stats_raw) (\<lambda>regions.
     bind_err (py_get raw ''targeting'' PNone) (\<lambda>targeting_raw.
     bind_err (parse_targeting targeting_raw) (\<lambda>tgt.
     bind_err (py_get raw ''variations'' PNone) (\<lambda>variations_raw.
     bind_err (parse_variations variations_raw) (\<lambda>vars.
       Inr \<lparr>ad_library_url = py_str a_url, advertiser_id = py_str a_id,
            advertiser_name = py_str a_name, creative_id = py_str c_id,
            format = py_str fmt, first_shown = py_str first, last_shown = py_str last,
            preview_url = preview, start_url = start, region_stats = regions,
            targeting = tgt, variations = vars\<rparr>)))))))))))))))"

text \<open>
  The loop of \<open>parse_ads\<close>: \<open>except Exception\<close> catches whatever the construction
  raises, logs it and goes on with the next item; nothing is appended for that item.
\<close>

fun parse_ads_loop :: "AdRecord list \<Rightarrow> pyval list \<Rightarrow> AdRecord list" where
  "parse_ads_loop parsed [] = parsed"
| "parse_ads_loop parsed (raw # rest) =
     (case ad_record_of_raw raw of
        Inr ad \<Rightarrow> parse_ads_loop (parsed @ [ad]) rest
      | Inl exc \<Rightarrow> parse_ads_loop parsed rest)"

text \<open>\<open>enumerate(raw_ads)\<close> stands outside the \<open>try\<close> block.\<close>

definition parse_ads :: "pyval \<Rightarrow> py_error + AdRecord list" where
  "parse_ads raw_ads = bind_err (py_iter raw_ads) (\<lambda>raws. Inr (parse_ads_loop [] raws))"

definition raw_ad_sample :: pyval where
  "raw_ad_sample = PDict
     [(''adLibraryUrl'', PStr ''https://adstransparency.google.com/advertiser/AR1/creative/CR1''),
      (''advertiserId'', PStr ''AR1''), (''creativeId'', PStr ''CR1''),
      (''regionStats'', PList
         [PDict [(''regionCode'', PStr ''US''), (''regionName'', PStr ''United States''),
                 (''impressions'', PDict [(''lowerBound'', PStr ''100''), (''upperBound'', PStr ''200'')])],
          PDict [(''regionCode'', PStr ''US''), (''regionName'', PStr ''United States''),
                 (''impressions'', PDict [(''lowerBound'', PStr ''50''), (''upperBound'', PStr ''75'')])]]),
      (''targeting'', PDict [(''targetingCategory'',
         PDict [(''demographics'', PDict [(''AGE'', PBool True), (''GENDER'', PInt 0)]),
                (''geography'', PStr ''everywhere'')])]),
      (''variations'', PList [PDict [(''cta'', PStr ''Buy'')]])]"

section \<open>normalize\_region\_stats on a store of objects\<close>

text \<open>
  \<open>normalize_region_stats\<close> works in place. To see what it does to the objects it is
  given, the objects live in a store: a region object refers to its impression range and
  to its surface objects, a surface object to its impression range. The lists are values:
  the function never changes a list object, it builds new lists and assigns them.
\<close>

text \<open>
  The attributes of a surface object are prefixed with \<open>s_\<close>, those of a region object
  with \<open>r_\<close>; an attribute that holds an object holds its address.
\<close>

type_synonym addr = nat

record SurfaceObj =
  s_surface_code :: string
  s_surface_name :: string
  s_impressions :: addr

record RegionObj =
  r_region_code :: string
  r_region_name :: string
  r_first_shown :: string
  r_last_shown :: string
  r_impressions :: addr
  r_surface_serving_stats :: "addr list"

record store =
  range_at :: "addr \<Rightarrow> ImpressionRange"
  surface_at :: "addr \<Rightarrow> SurfaceObj"
  region_at :: "addr \<Rightarrow> RegionObj"

definition key_at :: "store \<Rightarrow> addr \<Rightarrow> string \<times> string" where
  "key_at h region = (r_region_code (region_at h region), r_region_name (region_at h region))"

text \<open>
  The two \<open>+=\<close> statements on the range at \<open>existing_impressions\<close>, one after the other;
  each reads the store as the statement before it left it.
\<close>

definition add_impressions_st :: "store \<Rightarrow> addr \<Rightarrow> addr \<Rightarrow> store" where
  "add_impressions_st h existing_impressions new_impressions =
     (let h1 = h\<lparr>range_at := (range_at h)(existing_impressions :=
                  (range_at h existing_impressions)\<lparr>lower_bound :=
                     lower_bound (range_at h existing_impressions) +
                     lower_bound (range_at h new_impressions)\<rparr>)\<rparr>
      in h1\<lparr>range_at := (range_at h1)(existing_impressions :=
                  (range_at h1 existing_impressions)\<lparr>upper_bound :=
                     upper_bound (range_at h1 existing_impressions) +
                     upper_bound (range_at h1 new_impressions)\<rparr>)\<rparr>)"










section \<open>Row count of to\_flat\_dicts\<close>

lemma length_concat_map_const:
  "length (concat (map (\<lambda>x. map (g x) vs) xs)) = length xs * length vs"
  by (induction xs) simp_all

lemma length_nested_loops:
  "length (concat (map (\<lambda>r. concat (map (\<lambda>s. map (g r s) vs) (f r))) rs)) =
     (\<Sum>r\<leftarrow>rs. length (f r) * length vs)"
  by (induction rs) (simp_all add: length_concat_map_const)

lemma length_or_default: "length (if xs = [] then [d] else xs) = max 1 (length xs)"
  by (cases xs) simp_all

lemma to_flat_dicts_length_aux:
  "length (to_flat_dicts self) =
     (\<Sum>r\<leftarrow>(if region_stats self = [] then [synthetic_region] else region_stats self).
        max 1 (length (surface_serving_stats r)) * max 1 (length (variations self)))"
  unfolding to_flat_dicts_def Let_def length_nested_loops length_or_default ..

text \<open>
  C1. An ad with region stats \<open>rs\<close> and \<open>V\<close> variations flattens to the sum over the
  regions \<open>r\<close> of \<open>max 1 S\<^sub>r * max 1 V\<close> rows, \<open>S\<^sub>r\<close> the number of surface stats of
  \<open>r\<close>; with no region the count is \<open>max 1 V\<close>, and an ad with no region and no
  variation flattens to exactly one row.
\<close>

theorem to_flat_dicts_row_count:
  "length (to_flat_dicts self) =
     (if region_stats self = [] then max 1 (length (variations self))
      else (\<Sum>r\<leftarrow>region_stats self.
              max 1 (length (surface_serving_stats r)) * max 1 (length (variations self))))
   \<and> (region_stats self = [] \<and> variations self = [] \<longrightarrow> length (to_flat_dicts self) = 1)"
  unfolding to_flat_dicts_length_aux
  by (simp add: synthetic_region_def)

text \<open>
  The end-to-end example of the specification: two regions, one with two surfaces and
  one with one, and one variation give three rows; the bare ad gives one.
\<close>

theorem to_flat_dicts_row_count_witness:
  "length (to_flat_dicts ad_bare) = 1 \<and>
   length (to_flat_dicts (ad_bare\<lparr>
     region_stats := [region_sample ''US'' ''United States'' [surface_sample ''SEARCH'', surface_sample ''MAPS''],
                      region_sample ''CA'' ''Canada'' [surface_sample ''SEARCH'']],
     variations := [variation_sample]\<rparr>)) = 3"
  using to_flat_dicts_row_count [of ad_bare]
    to_flat_dicts_row_count [of "ad_bare\<lparr>
     region_stats := [region_sample ''US'' ''United States'' [surface_sample ''SEARCH'', surface_sample ''MAPS''],
                      region_sample ''CA'' ''Canada'' [surface_sample ''SEARCH'']],
     variations := [variation_sample]\<rparr>"]
  by (simp add: ad_bare_def region_sample_def)

section \<open>Keys and values of the rows of to\_flat\_dicts\<close>

text \<open>The five \<open>update\<close> calls fill disjoint key groups, so a row is their concatenation.\<close>

lemma flat_row:
  "dict_update (dict_update (dict_update (dict_update (dict_update []
     (base_dict self)) (region_dict r)) (surface_dict s)) (targeting_dict self)) (variation_dict v)
   = base_dict self @ region_dict r @ surface_dict s @ targeting_dict self @ variation_dict v"
  by (simp add: base_dict_def region_dict_def surface_dict_def targeting_dict_def
      variation_dict_def split: option.splits)

lemma to_flat_dicts_rows:
  "to_flat_dicts self =
     concat (map (\<lambda>r. concat (map (\<lambda>s. map (\<lambda>v.
        base_dict self @ region_dict r @ surface_dict s @ targeting_dict self @ variation_dict v)
        (if variations self = [] then [synthetic_variation] else variations self))
        (if surface_serving_stats r = [] then [synthetic_surface] else surface_serving_stats r)))
        (if region_stats self = [] then [synthetic_region] else region_stats self))"
  unfolding to_flat_dicts_def Let_def flat_row ..

lemma to_flat_dicts_row_cases:
  assumes "row \<in> set (to_flat_dicts self)"
  obtains r s v where
    "r \<in> set (if region_stats self = [] then [synthetic_region] else region_stats self)"
    "s \<in> set (if surface_serving_stats r = [] then [synthetic_surface] else surface_serving_stats r)"
    "v \<in> set (if variations self = [] then [synthetic_variation] else variations self)"
    "row = base_dict self @ region_dict r @ surface_dict s @ targeting_dict self @ variation_dict v"
  using assms unfolding to_flat_dicts_rows by auto

lemma keys_of_row:
  "map fst (base_dict self @ region_dict r @ surface_dict s @ targeting_dict self @ variation_dict v)
   = base_keys @ region_keys @ surface_keys @
     (if targeting self = None then [] else targeting_keys) @ variation_keys"
  by (simp add: base_dict_def region_dict_def surface_dict_def targeting_dict_def
      variation_dict_def base_keys_def region_keys_def surface_keys_def targeting_keys_def
      variation_keys_def split: option.splits)

lemma to_flat_dicts_keys_exact:
  assumes "row \<in> set (to_flat_dicts self)"
  shows "map fst row = base_keys @ region_keys @ surface_keys @
     (if targeting self = None then [] else targeting_keys) @ variation_keys"
  using assms by (elim to_flat_dicts_row_cases) (simp only: keys_of_row)

lemma all_keys_distinct:
  "distinct (base_keys @ region_keys @ surface_keys @ targeting_keys @ variation_keys)"
  by (simp add: base_keys_def region_keys_def surface_keys_def targeting_keys_def variation_keys_def)

lemma region_values:
  assumes "row = base_dict self @ region_dict r @ rest"
  shows "map_of row ''regionCode'' = Some (PStr (region_code r)) \<and>
   map_of row ''regionName'' = Some (PStr (region_name r)) \<and>
   map_of row ''regionFirstShown'' = Some (PStr (region_first_shown r)) \<and>
   map_of row ''regionLastShown'' = Some (PStr (region_last_shown r)) \<and>
   map_of row ''regionImpressionsLower'' = Some (PInt (lower_bound (impressions r))) \<and>
   map_of row ''regionImpressionsUpper'' = Some (PInt (upper_bound (impressions r)))"
  unfolding assms by (simp add: base_dict_def region_dict_def)

lemma surface_values:
  assumes "row = base_dict self @ region_dict r @ surface_dict s @ rest"
  shows "map_of row ''surfaceCode'' = Some (PStr (surface_code s)) \<and>
   map_of row ''surfaceName'' = Some (PStr (surface_name s)) \<and>
   map_of row ''surfaceImpressionsLower'' = Some (PInt (lower_bound (surface_impressions s))) \<and>
   map_of row ''surfaceImpressionsUpper'' = Some (PInt (upper_bound (surface_impressions s)))"
  unfolding assms by (simp add: base_dict_def region_dict_def surface_dict_def)

lemma variation_values:
  assumes "row = base_dict self @ region_dict r @ surface_dict s @ targeting_dict self @ variation_dict v"
  shows "map_of row ''variationClickUrl'' = Some (click_url v) \<and>
   map_of row ''variationCta'' = Some (cta v) \<and>
   map_of row ''variationDescription'' = Some (description v) \<and>
   map_of row ''variationImageUrl'' = Some (image_url v)"
  unfolding assms
  by (simp add: base_dict_def region_dict_def surface_dict_def targeting_dict_def variation_dict_def
      split: option.splits)

lemma ad_bare_rows:
  "to_flat_dicts ad_bare =
    [[(''adLibraryUrl'', PStr ''https://adstransparency.google.com/advertiser/AR1/creative/CR1''),
      (''advertiserId'', PStr ''AR1''), (''advertiserName'', PStr ''Acme''),
      (''creativeId'', PStr ''CR1''), (''format'', PStr ''IMAGE''),
      (''firstShown'', PStr ''2023-07-04''), (''lastShown'', PStr ''2024-05-17''),
      (''previewUrl'', PNone), (''startUrl'', PNone),
      (''regionCode'', PStr ''''), (''regionName'', PStr ''''),
      (''regionFirstShown'', PStr ''''), (''regionLastShown'', PStr ''''),
      (''regionImpressionsLower'', PInt 0), (''regionImpressionsUpper'', PInt 0),
      (''surfaceCode'', PStr ''''), (''surfaceName'', PStr ''''),
      (''surfaceImpressionsLower'', PInt 0), (''surfaceImpressionsUpper'', PInt 0),
      (''variationClickUrl'', PNone), (''variationCta'', PNone),
      (''variationDescription'', PNone), (''variationImageUrl'', PNone)]]"
  unfolding to_flat_dicts_rows
  by (simp add: ad_bare_def base_dict_def region_dict_def surface_dict_def targeting_dict_def
      variation_dict_def synthetic_region_def synthetic_surface_def synthetic_variation_def)

lemma ad_targeted_rows:
  "to_flat_dicts ad_targeted =
    [[(''adLibraryUrl'', PStr ''https://adstransparency.google.com/advertiser/AR1/creative/CR1''),
      (''advertiserId'', PStr ''AR1''), (''advertiserName'', PStr ''Acme''),
      (''creativeId'', PStr ''CR1''), (''format'', PStr ''IMAGE''),
      (''firstShown'', PStr ''2023-07-04''), (''lastShown'', PStr ''2024-05-17''),
      (''previewUrl'', PNone), (''startUrl'', PNone),
      (''regionCode'', PStr ''''), (''regionName'', PStr ''''),
      (''regionFirstShown'', PStr ''''), (''regionLastShown'', PStr ''''),
      (''regionImpressionsLower'', PInt 0), (''regionImpressionsUpper'', PInt 0),
      (''surfaceCode'', PStr ''''), (''surfaceName'', PStr ''''),
      (''surfaceImpressionsLower'', PInt 0), (''surfaceImpressionsUpper'', PInt 0),
      (''targetingDemographicsTrue'', PStr ''AGE,GENDER''),
      (''targetingGeographyTrue'', PStr ''COUNTRY''),
      (''targetingContextualTrue'', PStr ''''),
      (''targetingAdvertiserListTrue'', PStr ''''),
      (''variationClickUrl'', PNone), (''variationCta'', PNone),
      (''variationDescription'', PNone), (''variationImageUrl'', PNone)]]"
  unfolding to_flat_dicts_rows
  by (simp add: ad_targeted_def ad_bare_def base_dict_def region_dict_def surface_dict_def
      targeting_dict_def variation_dict_def synthetic_region_def synthetic_surface_def
      synthetic_variation_def targeting_sample_def active_codes_def less_eq_char_def less_char_def)

lemma to_flat_dicts_keys_basic:
  assumes "row \<in> set (to_flat_dicts self)"
  shows "set (base_keys @ region_keys @ surface_keys @ variation_keys) \<subseteq> set (map fst row)
    \<and> distinct (map fst row)
    \<and> (\<forall>row' \<in> set (to_flat_dicts self). map fst row' = map fst row)
    \<and> (targeting self \<noteq> None \<longrightarrow>
         map fst row = base_keys @ region_keys @ surface_keys @ targeting_keys @ variation_keys)
    \<and> (region_stats self = [] \<longrightarrow>
         map_of row ''regionCode'' = Some (PStr '''') \<and>
         map_of row ''regionName'' = Some (PStr '''') \<and>
         map_of row ''regionFirstShown'' = Some (PStr '''') \<and>
         map_of row ''regionLastShown'' = Some (PStr '''') \<and>
         map_of row ''regionImpressionsLower'' = Some (PInt 0) \<and>
         map_of row ''regionImpressionsUpper'' = Some (PInt 0))
    \<and> ((\<forall>r \<in> set (region_stats self). surface_serving_stats r = []) \<longrightarrow>
         map_of row ''surfaceCode'' = Some (PStr '''') \<and>
         map_of row ''surfaceName'' = Some (PStr '''') \<and>
         map_of row ''surfaceImpressionsLower'' = Some (PInt 0) \<and>
         map_of row ''surfaceImpressionsUpper'' = Some (PInt 0))
    \<and> (variations self = [] \<longrightarrow>
         map_of row ''variationClickUrl'' = Some PNone \<and>
         map_of row ''variationCta'' = Some PNone \<and>
         map_of row ''variationDescription'' = Some PNone \<and>
         map_of row ''variationImageUrl'' = Some PNone)"
proof -
  from assms obtain r s v where
    r: "r \<in> set (if region_stats self = [] then [synthetic_region] else region_stats self)" and
    s: "s \<in> set (if surface_serving_stats r = [] then [synthetic_surface] else surface_serving_stats r)" and
    v: "v \<in> set (if variations self = [] then [synthetic_variation] else variations self)" and
    row: "row = base_dict self @ region_dict r @ surface_dict s @ targeting_dict self @ variation_dict v"
    by (rule to_flat_dicts_row_cases)
  have keys: "map fst row = base_keys @ region_keys @ surface_keys @
     (if targeting self = None then [] else targeting_keys) @ variation_keys"
    using assms by (rule to_flat_dicts_keys_exact)
  have k1: "set (base_keys @ region_keys @ surface_keys @ variation_keys) \<subseteq> set (map fst row)"
    unfolding keys by auto
  have k2: "distinct (map fst row)"
    unfolding keys using all_keys_distinct by (auto split: if_splits)
  have k3: "\<forall>row' \<in> set (to_flat_dicts self). map fst row' = map fst row"
    unfolding keys by (simp add: to_flat_dicts_keys_exact)
  have k4: "targeting self \<noteq> None \<longrightarrow>
         map fst row = base_keys @ region_keys @ surface_keys @ targeting_keys @ variation_keys"
    unfolding keys by simp
  have rsyn: "region_stats self = [] \<Longrightarrow> r = synthetic_region"
    using r by simp
  have k5: "region_stats self = [] \<longrightarrow>
         map_of row ''regionCode'' = Some (PStr '''') \<and>
         map_of row ''regionName'' = Some (PStr '''') \<and>
         map_of row ''regionFirstShown'' = Some (PStr '''') \<and>
         map_of row ''regionLastShown'' = Some (PStr '''') \<and>
         map_of row ''regionImpressionsLower'' = Some (PInt 0) \<and>
         map_of row ''regionImpressionsUpper'' = Some (PInt 0)"
  proof
    assume "region_stats self = []"
    then have "r = synthetic_region" by (rule rsyn)
    then show "map_of row ''regionCode'' = Some (PStr '''') \<and>
         map_of row ''regionName'' = Some (PStr '''') \<and>
         map_of row ''regionFirstShown'' = Some (PStr '''') \<and>
         map_of row ''regionLastShown'' = Some (PStr '''') \<and>
         map_of row ''regionImpressionsLower'' = Some (PInt 0) \<and>
         map_of row ''regionImpressionsUpper'' = Some (PInt 0)"
      using region_values [OF row] by (simp add: synthetic_region_def)
  qed
  have k6: "(\<forall>r \<in> set (region_stats self). surface_serving_stats r = []) \<longrightarrow>
         map_of row ''surfaceCode'' = Some (PStr '''') \<and>
         map_of row ''surfaceName'' = Some (PStr '''') \<and>
         map_of row ''surfaceImpressionsLower'' = Some (PInt 0) \<and>
         map_of row ''surfaceImpressionsUpper'' = Some (PInt 0)"
  proof
    assume a: "\<forall>r \<in> set (region_stats self). surface_serving_stats r = []"
    have "surface_serving_stats r = []"
      using r a by (auto simp: synthetic_region_def split: if_splits)
    with s have "s = synthetic_surface" by simp
    then show "map_of row ''surfaceCode'' = Some (PStr '''') \<and>
         map_of row ''surfaceName'' = Some (PStr '''') \<and>
         map_of row ''surfaceImpressionsLower'' = Some (PInt 0) \<and>
         map_of row ''surfaceImpressionsUpper'' = Some (PInt 0)"
      using surface_values [OF row] by (simp add: synthetic_surface_def)
  qed
  have k7: "variations self = [] \<longrightarrow>
         map_of row ''variationClickUrl'' = Some PNone \<and>
         map_of row ''variationCta'' = Some PNone \<and>
         map_of row ''variationDescription'' = Some PNone \<and>
         map_of row ''variationImageUrl'' = Some PNone"
  proof
    assume "variations self = []"
    with v have "v = synthetic_variation" by simp
    then show "map_of row ''variationClickUrl'' = Some PNone \<and>
         map_of row ''variationCta'' = Some PNone \<and>
         map_of row ''variationDescription'' = Some PNone \<and>
         map_of row ''variationImageUrl'' = Some PNone"
      using variation_values [OF row] by (simp add: synthetic_variation_def)
  qed
  from k1 k2 k3 k4 k5 k6 k7 show ?thesis by blast
qed

lemma base_values:
  assumes "row = base_dict self @ rest"
  shows "map_of row ''adLibraryUrl'' = Some (PStr (ad_library_url self)) \<and>
   map_of row ''advertiserId'' = Some (PStr (advertiser_id self)) \<and>
   map_of row ''advertiserName'' = Some (PStr (advertiser_name self)) \<and>
   map_of row ''creativeId'' = Some (PStr (creative_id self)) \<and>
   map_of row ''format'' = Some (PStr (format self)) \<and>
   map_of row ''firstShown'' = Some (PStr (first_shown self)) \<and>
   map_of row ''lastShown'' = Some (PStr (last_shown self)) \<and>
   map_of row ''previewUrl'' = Some (preview_url self) \<and>
   map_of row ''startUrl'' = Some (start_url self)"
  unfolding assms by (simp add: base_dict_def)

lemma targeting_values:
  assumes "row = base_dict self @ region_dict r @ surface_dict s @ targeting_dict self @ rest"
    and "targeting self = Some t"
  shows "map_of row ''targetingDemographicsTrue'' =
     Some (PStr (join '','' (sort (map fst (filter snd (demographics t)))))) \<and>
   map_of row ''targetingGeographyTrue'' =
     Some (PStr (join '','' (sort (map fst (filter snd (geography t)))))) \<and>
   map_of row ''targetingContextualTrue'' =
     Some (PStr (join '','' (sort (map fst (filter snd (contextual t)))))) \<and>
   map_of row ''targetingAdvertiserListTrue'' =
     Some (PStr (join '','' (sort (map fst (filter snd (advertiser_list t))))))"
  unfolding assms(1)
  by (simp add: base_dict_def region_dict_def surface_dict_def targeting_dict_def assms(2)
      active_codes_def)

text \<open>
  Every row belongs to one region, one surface of that region and one variation, the
  synthetic one where the list is empty, and holds their values.
\<close>

lemma to_flat_dicts_row_values:
  assumes "row \<in> set (to_flat_dicts self)"
  shows "\<exists>r s v.
      (region_stats self = [] \<and>
         r = \<lparr>region_code = '''', region_name = '''', region_first_shown = '''',
              region_last_shown = '''', impressions = \<lparr>lower_bound = 0, upper_bound = 0\<rparr>,
              surface_serving_stats = []\<rparr> \<or>
       r \<in> set (region_stats self)) \<and>
      (surface_serving_stats r = [] \<and>
         s = \<lparr>surface_code = '''', surface_name = '''',
              surface_impressions = \<lparr>lower_bound = 0, upper_bound = 0\<rparr>\<rparr> \<or>
       s \<in> set (surface_serving_stats r)) \<and>
      (variations self = [] \<and>
         v = \<lparr>click_url = PNone, cta = PNone, description = PNone, image_url = PNone\<rparr> \<or>
       v \<in> set (variations self)) \<and>
      map_of row ''regionCode'' = Some (PStr (region_code r)) \<and>
      map_of row ''regionName'' = Some (PStr (region_name r)) \<and>
      map_of row ''regionFirstShown'' = Some (PStr (region_first_shown r)) \<and>
      map_of row ''regionLastShown'' = Some (PStr (region_last_shown r)) \<and>
      map_of row ''regionImpressionsLower'' = Some (PInt (lower_bound (impressions r))) \<and>
      map_of row ''regionImpressionsUpper'' = Some (PInt (upper_bound (impressions r))) \<and>
      map_of row ''surfaceCode'' = Some (PStr (surface_code s)) \<and>
      map_of row ''surfaceName'' = Some (PStr (surface_name s)) \<and>
      map_of row ''surfaceImpressionsLower'' = Some (PInt (lower_bound (surface_impressions s))) \<and>
      map_of row ''surfaceImpressionsUpper'' = Some (PInt (upper_bound (surface_impressions s))) \<and>
      map_of row ''variationClickUrl'' = Some (click_url v) \<and>
      map_of row ''variationCta'' = Some (cta v) \<and>
      map_of row ''variationDescription'' = Some (description v) \<and>
      map_of row ''variationImageUrl'' = Some (image_url v)"
proof -
  from assms obtain r s v where
    r: "r \<in> set (if region_stats self = [] then [synthetic_region] else region_stats self)" and
    s: "s \<in> set (if surface_serving_stats r = [] then [synthetic_surface] else surface_serving_stats r)" and
    v: "v \<in> set (if variations self = [] then [synthetic_variation] else variations self)" and
    row: "row = base_dict self @ region_dict r @ surface_dict s @ targeting_dict self @ variation_dict v"
    by (rule to_flat_dicts_row_cases)
  have r': "region_stats self = [] \<and>
         r = \<lparr>region_code = '''', region_name = '''', region_first_shown = '''',
              region_last_shown = '''', impressions = \<lparr>lower_bound = 0, upper_bound = 0\<rparr>,
              surface_serving_stats = []\<rparr> \<or>
       r \<in> set (region_stats self)"
    using r by (auto simp: synthetic_region_def split: if_splits)
  have s': "surface_serving_stats r = [] \<and>
         s = \<lparr>surface_code = '''', surface_name = '''',
              surface_impressions = \<lparr>lower_bound = 0, upper_bound = 0\<rparr>\<rparr> \<or>
       s \<in> set (surface_serving_stats r)"
    using s by (auto simp: synthetic_surface_def split: if_splits)
  have v': "variations self = [] \<and>
         v = \<lparr>click_url = PNone, cta = PNone, description = PNone, image_url = PNone\<rparr> \<or>
       v \<in> set (variations self)"
    using v by (auto simp: synthetic_variation_def split: if_splits)
  from r' s' v' region_values [OF row] surface_values [OF row] variation_values [OF row]
  show ?thesis by blast
qed

lemma to_flat_dicts_fixed_values:
  assumes "row \<in> set (to_flat_dicts self)"
  shows "map_of row ''adLibraryUrl'' = Some (PStr (ad_library_url self)) \<and>
   map_of row ''advertiserId'' = Some (PStr (advertiser_id self)) \<and>
   map_of row ''advertiserName'' = Some (PStr (advertiser_name self)) \<and>
   map_of row ''creativeId'' = Some (PStr (creative_id self)) \<and>
   map_of row ''format'' = Some (PStr (format self)) \<and>
   map_of row ''firstShown'' = Some (PStr (first_shown self)) \<and>
   map_of row ''lastShown'' = Some (PStr (last_shown self)) \<and>
   map_of row ''previewUrl'' = Some (preview_url self) \<and>
   map_of row ''startUrl'' = Some (start_url self) \<and>
   (\<forall>t. targeting self = Some t \<longrightarrow>
      map_of row ''targetingDemographicsTrue'' =
        Some (PStr (join '','' (sort (map fst (filter snd (demographics t)))))) \<and>
      map_of row ''targetingGeographyTrue'' =
        Some (PStr (join '','' (sort (map fst (filter snd (geography t)))))) \<and>
      map_of row ''targetingContextualTrue'' =
        Some (PStr (join '','' (sort (map fst (filter snd (contextual t)))))) \<and>
      map_of row ''targetingAdvertiserListTrue'' =
        Some (PStr (join '','' (sort (map fst (filter snd (advertiser_list t)))))))"
proof -
  from assms obtain r s v where
    row: "row = base_dict self @ region_dict r @ surface_dict s @ targeting_dict self @ variation_dict v"
    by (rule to_flat_dicts_row_cases)
  from base_values [OF row] targeting_values [OF row] show ?thesis by blast
qed

lemma ad_mixed_rows_full:
  "to_flat_dicts ad_mixed =
    [[(''adLibraryUrl'', PStr ''https://adstransparency.google.com/advertiser/AR1/creative/CR1''),
      (''advertiserId'', PStr ''AR1''), (''advertiserName'', PStr ''Acme''),
      (''creativeId'', PStr ''CR1''), (''format'', PStr ''IMAGE''),
      (''firstShown'', PStr ''2023-07-04''), (''lastShown'', PStr ''2024-05-17''),
      (''previewUrl'', PNone), (''startUrl'', PNone),
      (''regionCode'', PStr ''US''), (''regionName'', PStr ''United States''),
      (''regionFirstShown'', PStr ''2023-07-04''), (''regionLastShown'', PStr ''2024-05-17''),
      (''regionImpressionsLower'', PInt 100), (''regionImpressionsUpper'', PInt 200),
      (''surfaceCode'', PStr ''SEARCH''), (''surfaceName'', PStr ''SEARCH''),
      (''surfaceImpressionsLower'', PInt 10), (''surfaceImpressionsUpper'', PInt 20),
      (''targetingDemographicsTrue'', PStr ''AGE,GENDER''),
      (''targetingGeographyTrue'', PStr ''COUNTRY''),
      (''targetingContextualTrue'', PStr ''''),
      (''targetingAdvertiserListTrue'', PStr ''''),
      (''variationClickUrl'', PStr ''https://example.com''), (''variationCta'', PStr ''Buy''),
      (''variationDescription'', PNone), (''variationImageUrl'', PNone)],
     [(''adLibraryUrl'', PStr ''https://adstransparency.google.com/advertiser/AR1/creative/CR1''),
      (''advertiserId'', PStr ''AR1''), (''advertiserName'', PStr ''Acme''),
      (''creativeId'', PStr ''CR1''), (''format'', PStr ''IMAGE''),
      (''firstShown'', PStr ''2023-07-04''), (''lastShown'', PStr ''2024-05-17''),
      (''previewUrl'', PNone), (''startUrl'', PNone),
      (''regionCode'', PStr ''US''), (''regionName'', PStr ''United States''),
      (''regionFirstShown'', PStr ''2023-07-04''), (''regionLastShown'', PStr ''2024-05-17''),
      (''regionImpressionsLower'', PInt 100), (''regionImpressionsUpper'', PInt 200),
      (''surfaceCode'', PStr ''MAPS''), (''surfaceName'', PStr ''MAPS''),
      (''surfaceImpressionsLower'', PInt 10), (''surfaceImpressionsUpper'', PInt 20),
      (''targetingDemographicsTrue'', PStr ''AGE,GENDER''),
      (''targetingGeographyTrue'', PStr ''COUNTRY''),
      (''targetingContextualTrue'', PStr ''''),
      (''targetingAdvertiserListTrue'', PStr ''''),
      (''variationClickUrl'', PStr ''https://example.com''), (''variationCta'', PStr ''Buy''),
      (''variationDescription'', PNone), (''variationImageUrl'', PNone)],
     [(''adLibraryUrl'', PStr ''https://adstransparency.google.com/advertiser/AR1/creative/CR1''),
      (''advertiserId'', PStr ''AR1''), (''advertiserName'', PStr ''Acme''),
      (''creativeId'', PStr ''CR1''), (''format'', PStr ''IMAGE''),
      (''firstShown'', PStr ''2023-07-04''), (''lastShown'', PStr ''2024-05-17''),
      (''previewUrl'', PNone), (''startUrl'', PNone),
      (''regionCode'', PStr ''CA''), (''regionName'', PStr ''Canada''),
      (''regionFirstShown'', PStr ''2023-07-04''), (''regionLastShown'', PStr ''2024-05-17''),
      (''regionImpressionsLower'', PInt 100), (''regionImpressionsUpper'', PInt 200),
      (''surfaceCode'', PStr ''''), (''surfaceName'', PStr ''''),
      (''surfaceImpressionsLower'', PInt 0), (''surfaceImpressionsUpper'', PInt 0),
      (''targetingDemographicsTrue'', PStr ''AGE,GENDER''),
      (''targetingGeographyTrue'', PStr ''COUNTRY''),
      (''targetingContextualTrue'', PStr ''''),
      (''targetingAdvertiserListTrue'', PStr ''''),
      (''variationClickUrl'', PStr ''https://example.com''), (''variationCta'', PStr ''Buy''),
      (''variationDescription'', PNone), (''variationImageUrl'', PNone)]]"
  unfolding to_flat_dicts_rows
  by (simp add: ad_mixed_def ad_bare_def base_dict_def region_dict_def surface_dict_def
      targeting_dict_def variation_dict_def synthetic_surface_def region_sample_def
      surface_sample_def variation_sample_def targeting_sample_def active_codes_def
      less_eq_char_def less_char_def)

lemma ad_mixed_facts:
  "last (to_flat_dicts ad_mixed) \<in> set (to_flat_dicts ad_mixed) \<and>
   map (surface_serving_stats) (region_stats ad_mixed) =
     [[surface_sample ''SEARCH'', surface_sample ''MAPS''], []] \<and>
   map_of (hd (to_flat_dicts ad_mixed)) ''regionCode'' = Some (PStr ''US'') \<and>
   map_of (hd (to_flat_dicts ad_mixed)) ''surfaceCode'' = Some (PStr ''SEARCH'') \<and>
   map_of (last (to_flat_dicts ad_mixed)) ''regionCode'' = Some (PStr ''CA'') \<and>
   map_of (last (to_flat_dicts ad_mixed)) ''surfaceCode'' = Some (PStr '''') \<and>
   map_of (last (to_flat_dicts ad_mixed)) ''surfaceImpressionsLower'' = Some (PInt 0) \<and>
   map_of (last (to_flat_dicts ad_mixed)) ''surfaceImpressionsUpper'' = Some (PInt 0) \<and>
   map_of (last (to_flat_dicts ad_mixed)) ''variationCta'' = Some (PStr ''Buy'') \<and>
   map_of (last (to_flat_dicts ad_mixed)) ''previewUrl'' = Some PNone"
proof -
  have r: "map (surface_serving_stats) (region_stats ad_mixed) =
     [[surface_sample ''SEARCH'', surface_sample ''MAPS''], []]"
    by (simp add: ad_mixed_def ad_bare_def region_sample_def)
  show ?thesis
    unfolding r ad_mixed_rows_full by simp
qed

text \<open>
  C2 (as amended). Every row of an ad contains the ad metadata keys, the \<open>region*\<close>
  keys, the \<open>surface*\<close> keys and the \<open>variation*\<close> keys, each key once, and all rows
  of one ad have the same keys in the same order. When the ad has targeting information
  the row's keys are exactly the metadata, region, surface, four \<open>targeting*True\<close> and
  variation keys, in this order, and the targeting values are the comma-joined sorted
  active codes. The metadata values are those of the record, the preview and start URL
  as the record holds them (\<open>None\<close> when absent). Every row holds the values of one
  region of the ad, of one surface of that region and of one variation; where the ad
  has no region, the region has no surface or the ad has no variation, they are the
  values of the synthetic substitute: the empty string and \<open>0\<close> for a region or a
  surface, \<open>None\<close> for a variation.
\<close>

theorem to_flat_dicts_keys:
  assumes "row \<in> set (to_flat_dicts self)"
  shows "(set (base_keys @ region_keys @ surface_keys @ variation_keys) \<subseteq> set (map fst row)
    \<and> distinct (map fst row)
    \<and> (\<forall>row' \<in> set (to_flat_dicts self). map fst row' = map fst row)
    \<and> (targeting self \<noteq> None \<longrightarrow>
         map fst row = base_keys @ region_keys @ surface_keys @ targeting_keys @ variation_keys)
    \<and> (region_stats self = [] \<longrightarrow>
         map_of row ''regionCode'' = Some (PStr '''') \<and>
         map_of row ''regionName'' = Some (PStr '''') \<and>
         map_of row ''regionFirstShown'' = Some (PStr '''') \<and>
         map_of row ''regionLastShown'' = Some (PStr '''') \<and>
         map_of row ''regionImpressionsLower'' = Some (PInt 0) \<and>
         map_of row ''regionImpressionsUpper'' = Some (PInt 0))
    \<and> ((\<forall>r \<in> set (region_stats self). surface_serving_stats r = []) \<longrightarrow>
         map_of row ''surfaceCode'' = Some (PStr '''') \<and>
         map_of row ''surfaceName'' = Some (PStr '''') \<and>
         map_of row ''surfaceImpressionsLower'' = Some (PInt 0) \<and>
         map_of row ''surfaceImpressionsUpper'' = Some (PInt 0))
    \<and> (variations self = [] \<longrightarrow>
         map_of row ''variationClickUrl'' = Some PNone \<and>
         map_of row ''variationCta'' = Some PNone \<and>
         map_of row ''variationDescription'' = Some PNone \<and>
         map_of row ''variationImageUrl'' = Some PNone)) \<and>
   (map_of row ''adLibraryUrl'' = Some (PStr (ad_library_url self)) \<and>
   map_of row ''advertiserId'' = Some (PStr (advertiser_id self)) \<and>
   map_of row ''advertiserName'' = Some (PStr (advertiser_name self)) \<and>
   map_of row ''creativeId'' = Some (PStr (creative_id self)) \<and>
   map_of row ''format'' = Some (PStr (format self)) \<and>
   map_of row ''firstShown'' = Some (PStr (first_shown self)) \<and>
   map_of row ''lastShown'' = Some (PStr (last_shown self)) \<and>
   map_of row ''previewUrl'' = Some (preview_url self) \<and>
   map_of row ''startUrl'' = Some (start_url self) \<and>
   (\<forall>t. targeting self = Some t \<longrightarrow>
      map_of row ''targetingDemographicsTrue'' =
        Some (PStr (join '','' (sort (map fst (filter snd (demographics t)))))) \<and>
      map_of row ''targetingGeographyTrue'' =
        Some (PStr (join '','' (sort (map fst (filter snd (geography t)))))) \<and>
      map_of row ''targetingContextualTrue'' =
        Some (PStr (join '','' (sort (map fst (filter snd (contextual t)))))) \<and>
      map_of row ''targetingAdvertiserListTrue'' =
        Some (PStr (join '','' (sort (map fst (filter snd (advertiser_list t)))))))) \<and>
   (\<exists>r s v.
      (region_stats self = [] \<and>
         r = \<lparr>region_code = '''', region_name = '''', region_first_shown = '''',
              region_last_shown = '''', impressions = \<lparr>lower_bound = 0, upper_bound = 0\<rparr>,
              surface_serving_stats = []\<rparr> \<or>
       r \<in> set (region_stats self)) \<and>
      (surface_serving_stats r = [] \<and>
         s = \<lparr>surface_code = '''', surface_name = '''',
              surface_impressions = \<lparr>lower_bound = 0, upper_bound = 0\<rparr>\<rparr> \<or>
       s \<in> set (surface_serving_stats r)) \<and>
      (variations self = [] \<and>
         v = \<lparr>click_url = PNone, cta = PNone, description = PNone, image_url = PNone\<rparr> \<or>
       v \<in> set (variations self)) \<and>
      map_of row ''regionCode'' = Some (PStr (region_code r)) \<and>
      map_of row ''regionName'' = Some (PStr (region_name r)) \<and>
      map_of row ''regionFirstShown'' = Some (PStr (region_first_shown r)) \<and>
      map_of row ''regionLastShown'' = Some (PStr (region_last_shown r)) \<and>
      map_of row ''regionImpressionsLower'' = Some (PInt (lower_bound (impressions r))) \<and>
      map_of row ''regionImpressionsUpper'' = Some (PInt (upper_bound (impressions r))) \<and>
      map_of row ''surfaceCode'' = Some (PStr (surface_code s)) \<and>
      map_of row ''surfaceName'' = Some (PStr (surface_name s)) \<and>
      map_of row ''surfaceImpressionsLower'' = Some (PInt (lower_bound (surface_impressions s))) \<and>
      map_of row ''surfaceImpressionsUpper'' = Some (PInt (upper_bound (surface_impressions s))) \<and>
      map_of row ''variationClickUrl'' = Some (click_url v) \<and>
      map_of row ''variationCta'' = Some (cta v) \<and>
      map_of row ''variationDescription'' = Some (description v) \<and>
      map_of row ''variationImageUrl'' = Some (image_url v))"
  by (rule conjI [OF to_flat_dicts_keys_basic [OF assms]
      conjI [OF to_flat_dicts_fixed_values [OF assms] to_flat_dicts_row_values [OF assms]]])

theorem to_flat_dicts_keys_witness:
  "hd (to_flat_dicts ad_targeted) \<in> set (to_flat_dicts ad_targeted) \<and>
   targeting ad_targeted \<noteq> None \<and> region_stats ad_targeted = [] \<and>
   variations ad_targeted = [] \<and>
   map fst (hd (to_flat_dicts ad_targeted)) =
     base_keys @ region_keys @ surface_keys @ targeting_keys @ variation_keys \<and>
   map_of (hd (to_flat_dicts ad_targeted)) ''regionImpressionsLower'' = Some (PInt 0) \<and>
   map_of (hd (to_flat_dicts ad_targeted)) ''surfaceCode'' = Some (PStr '''') \<and>
   map_of (hd (to_flat_dicts ad_targeted)) ''variationCta'' = Some PNone \<and>
   last (to_flat_dicts ad_mixed) \<in> set (to_flat_dicts ad_mixed) \<and>
   map (surface_serving_stats) (region_stats ad_mixed) =
     [[surface_sample ''SEARCH'', surface_sample ''MAPS''], []] \<and>
   map_of (hd (to_flat_dicts ad_mixed)) ''regionCode'' = Some (PStr ''US'') \<and>
   map_of (hd (to_flat_dicts ad_mixed)) ''surfaceCode'' = Some (PStr ''SEARCH'') \<and>
   map_of (last (to_flat_dicts ad_mixed)) ''regionCode'' = Some (PStr ''CA'') \<and>
   map_of (last (to_flat_dicts ad_mixed)) ''surfaceCode'' = Some (PStr '''') \<and>
   map_of (last (to_flat_dicts ad_mixed)) ''surfaceImpressionsLower'' = Some (PInt 0) \<and>
   map_of (last (to_flat_dicts ad_mixed)) ''surfaceImpressionsUpper'' = Some (PInt 0) \<and>
   map_of (last (to_flat_dicts ad_mixed)) ''variationCta'' = Some (PStr ''Buy'') \<and>
   map_of (last (to_flat_dicts ad_mixed)) ''previewUrl'' = Some PNone"
proof -
  have h: "hd (to_flat_dicts ad_targeted) \<in> set (to_flat_dicts ad_targeted)"
    by (simp add: ad_targeted_rows)
  have t: "targeting ad_targeted \<noteq> None" "region_stats ad_targeted = []"
    "variations ad_targeted = []"
    by (simp_all add: ad_targeted_def ad_bare_def)
  have a:
    "map fst (hd (to_flat_dicts ad_targeted)) =
       base_keys @ region_keys @ surface_keys @ targeting_keys @ variation_keys"
    "map_of (hd (to_flat_dicts ad_targeted)) ''regionImpressionsLower'' = Some (PInt 0)"
    "map_of (hd (to_flat_dicts ad_targeted)) ''surfaceCode'' = Some (PStr '''')"
    "map_of (hd (to_flat_dicts ad_targeted)) ''variationCta'' = Some PNone"
    unfolding ad_targeted_rows
    by (simp_all add: base_keys_def region_keys_def surface_keys_def targeting_keys_def
        variation_keys_def)
  have m: "last (to_flat_dicts ad_mixed) \<in> set (to_flat_dicts ad_mixed)"
    using ad_mixed_facts by (rule conjunct1)
  have g: ?thesis
    using h t a ad_mixed_facts by blast
  from to_flat_dicts_keys [OF h] to_flat_dicts_keys [OF m] show ?thesis
    by - (rule g)
qed

text \<open>
  The claim as stated fails on the bare ad (no region, no variation, no targeting): its
  single row has none of the four \<open>targeting*True\<close> keys, and its variation values and
  preview URL are \<open>None\<close>, neither the empty string nor \<open>0\<close>.
\<close>

theorem to_flat_dicts_keys_counterexample:
  "''targetingDemographicsTrue'' \<notin> set (map fst (hd (to_flat_dicts ad_bare))) \<and>
   ''targetingGeographyTrue'' \<notin> set (map fst (hd (to_flat_dicts ad_bare))) \<and>
   ''targetingContextualTrue'' \<notin> set (map fst (hd (to_flat_dicts ad_bare))) \<and>
   ''targetingAdvertiserListTrue'' \<notin> set (map fst (hd (to_flat_dicts ad_bare))) \<and>
   map_of (hd (to_flat_dicts ad_bare)) ''variationCta'' = Some PNone \<and>
   map_of (hd (to_flat_dicts ad_bare)) ''previewUrl'' = Some PNone \<and>
   length (to_flat_dicts ad_bare) = 1"
  unfolding ad_bare_rows by simp

section \<open>The merge scheme\<close>

lemma map_of_dict_setitem: "map_of (dict_setitem d k v) = (map_of d)(k \<mapsto> v)"
  by (induction d) (auto simp: fun_eq_iff)

lemma keys_dict_setitem:
  "map fst (dict_setitem d k v) = (if k \<in> fst ` set d then map fst d else map fst d @ [k])"
  by (induction d) auto

lemma dict_setitem_fresh: "k \<notin> fst ` set d \<Longrightarrow> dict_setitem d k v = d @ [(k, v)]"
  by (induction d) auto

lemma group_regions_merge_by: "group_regions d rs = merge_by region_key merge_region d rs"
  by (induction rs arbitrary: d) (simp_all add: Let_def split: option.splits)

lemma merge_surfaces_merge_by: "merge_surfaces d ss = merge_by surface_code merge_surface d ss"
  by (induction ss arbitrary: d) (simp_all add: Let_def merge_surface_def split: option.splits)

lemma keys_merge_by_set:
  "fst ` set (merge_by key f d xs) = fst ` set d \<union> key ` set xs"
proof (induction xs arbitrary: d)
  case Nil
  then show ?case by simp
next
  case (Cons x xs)
  have "set (map fst (dict_setitem d (key x) v)) = insert (key x) (fst ` set d)" for v
    unfolding keys_dict_setitem by auto
  then have "fst ` set (dict_setitem d (key x) v) = insert (key x) (fst ` set d)" for v
    by simp
  then show ?case
    by (simp add: Cons.IH split: option.splits)
qed

lemma keys_merge_by_distinct:
  "distinct (map fst d) \<Longrightarrow> distinct (map fst (merge_by key f d xs))"
proof (induction xs arbitrary: d)
  case Nil
  then show ?case by simp
next
  case (Cons x xs)
  have "distinct (map fst (dict_setitem d (key x) v))" for v
    unfolding keys_dict_setitem using Cons.prems by auto
  then show ?case
    by (simp add: Cons.IH split: option.splits)
qed

lemma map_of_merge_by:
  "map_of (merge_by key f d xs) k =
     (case map_of d k of
        Some e \<Rightarrow> Some (foldl f e (filter (\<lambda>x. key x = k) xs))
      | None \<Rightarrow> (case filter (\<lambda>x. key x = k) xs of
                   [] \<Rightarrow> None
                 | x # rest \<Rightarrow> Some (foldl f x rest)))"
proof (induction xs arbitrary: d)
  case Nil
  then show ?case by (simp split: option.splits)
next
  case (Cons x xs)
  show ?case
    by (simp add: Cons.IH map_of_dict_setitem split: option.splits)
qed

lemma merge_by_distinct_keys:
  "distinct (map key xs) \<Longrightarrow> key ` set xs \<inter> fst ` set d = {} \<Longrightarrow>
   merge_by key f d xs = d @ map (\<lambda>x. (key x, x)) xs"
proof (induction xs arbitrary: d)
  case Nil
  then show ?case by simp
next
  case (Cons x xs)
  from Cons.prems have fresh: "key x \<notin> fst ` set d" by auto
  then have none: "map_of d (key x) = None"
    by (simp add: map_of_eq_None_iff)
  have disj: "key ` set xs \<inter> fst ` set (d @ [(key x, x)]) = {}"
    using Cons.prems by auto
  have dist: "distinct (map key xs)" using Cons.prems by simp
  show ?case
    using Cons.IH [OF dist disj] by (simp add: none dict_setitem_fresh [OF fresh])
qed

text \<open>Every stored entry is the fold of the entries of its key, in input order.\<close>

lemma merge_by_entries:
  assumes "(k, v) \<in> set (merge_by key f [] xs)"
  obtains x rest where "filter (\<lambda>y. key y = k) xs = x # rest" "v = foldl f x rest"
proof -
  have "distinct (map fst (merge_by key f [] xs))"
    by (rule keys_merge_by_distinct) simp
  with assms have "map_of (merge_by key f [] xs) k = Some v"
    by simp
  then show thesis
    using that by (auto simp: map_of_merge_by split: list.splits)
qed

section \<open>Folding the entries of one key\<close>

lemma region_key_merge_region [simp]: "region_key (merge_region e r) = region_key e"
  by (simp add: merge_region_def region_key_def Let_def)

lemma region_key_foldl [simp]: "region_key (foldl merge_region e rs) = region_key e"
  by (induction rs arbitrary: e) simp_all

lemma impressions_foldl:
  "lower_bound (impressions (foldl merge_region e rs)) =
     lower_bound (impressions e) + (\<Sum>r\<leftarrow>rs. lower_bound (impressions r))"
  "upper_bound (impressions (foldl merge_region e rs)) =
     upper_bound (impressions e) + (\<Sum>r\<leftarrow>rs. upper_bound (impressions r))"
  by (induction rs arbitrary: e) (simp_all add: merge_region_def add_impressions_def Let_def)

lemma surfaces_foldl:
  "surface_serving_stats (foldl merge_region e rs) =
     surface_serving_stats e @ concat (map surface_serving_stats rs)"
  by (induction rs arbitrary: e) (simp_all add: merge_region_def Let_def)

lemma first_shown_foldl:
  "region_first_shown (foldl merge_region e rs) =
     foldl pick_first (region_first_shown e) (map region_first_shown rs)"
  by (induction rs arbitrary: e) (simp_all add: merge_region_def pick_first_def Let_def)

lemma last_shown_foldl:
  "region_last_shown (foldl merge_region e rs) =
     foldl pick_last (region_last_shown e) (map region_last_shown rs)"
  by (induction rs arbitrary: e) (simp_all add: merge_region_def pick_last_def Let_def)

lemma Min_insert_below:
  "finite S \<Longrightarrow> m \<in> S \<Longrightarrow> m \<le> (a::'a::linorder) \<Longrightarrow> Min (insert a S) = Min S"
  by (metis Min.insert Min_le empty_iff min.absorb2 order_trans)

lemma Max_insert_above:
  "finite S \<Longrightarrow> m \<in> S \<Longrightarrow> (a::'a::linorder) \<le> m \<Longrightarrow> Max (insert a S) = Max S"
  by (metis Max.insert Max_ge empty_iff max.absorb2 order_trans)

lemma foldl_pick_first_nonempty:
  "a \<noteq> [] \<Longrightarrow>
   foldl pick_first a bs = Min (insert a (set (filter (\<lambda>x. x \<noteq> []) bs)))"
proof (induction bs arbitrary: a)
  case Nil
  then show ?case by simp
next
  case (Cons b bs)
  let ?S = "set (filter (\<lambda>x. x \<noteq> []) bs)"
  show ?case
  proof (cases "b = []")
    case True
    then show ?thesis using Cons by (simp add: pick_first_def)
  next
    case bne: False
    show ?thesis
    proof (cases "b < a")
      case True
      then have "Min (insert a (insert b ?S)) = Min (insert b ?S)"
        by (intro Min_insert_below [where m = b]) auto
      then show ?thesis using True bne Cons.IH [OF bne] by (simp add: pick_first_def)
    next
      case False
      then have "Min (insert b (insert a ?S)) = Min (insert a ?S)"
        by (intro Min_insert_below [where m = a]) auto
      then show ?thesis
        using False bne Cons.prems Cons.IH [OF Cons.prems]
        by (simp add: pick_first_def insert_commute)
    qed
  qed
qed

lemma foldl_pick_first:
  "foldl pick_first a bs =
     (if filter (\<lambda>x. x \<noteq> []) (a # bs) = [] then []
      else Min (set (filter (\<lambda>x. x \<noteq> []) (a # bs))))"
proof (cases "a = []")
  case False
  then show ?thesis by (simp add: foldl_pick_first_nonempty)
next
  case True
  have "foldl pick_first [] bs =
     (if filter (\<lambda>x. x \<noteq> []) bs = [] then []
      else Min (set (filter (\<lambda>x. x \<noteq> []) bs)))"
  proof (induction bs)
    case Nil
    then show ?case by simp
  next
    case (Cons b bs)
    show ?case
    proof (cases "b = []")
      case True
      then show ?thesis using Cons by (simp add: pick_first_def)
    next
      case False
      then have "pick_first [] b = b" by (simp add: pick_first_def)
      with False show ?thesis by (simp add: foldl_pick_first_nonempty)
    qed
  qed
  with True show ?thesis by simp
qed

lemma foldl_pick_last_nonempty:
  "a \<noteq> [] \<Longrightarrow>
   foldl pick_last a bs = Max (insert a (set (filter (\<lambda>x. x \<noteq> []) bs)))"
proof (induction bs arbitrary: a)
  case Nil
  then show ?case by simp
next
  case (Cons b bs)
  let ?S = "set (filter (\<lambda>x. x \<noteq> []) bs)"
  show ?case
  proof (cases "b = []")
    case True
    then show ?thesis using Cons by (simp add: pick_last_def)
  next
    case bne: False
    show ?thesis
    proof (cases "a < b")
      case True
      then have "Max (insert a (insert b ?S)) = Max (insert b ?S)"
        by (intro Max_insert_above [where m = b]) auto
      then show ?thesis using True bne Cons.IH [OF bne] by (simp add: pick_last_def)
    next
      case False
      then have "Max (insert b (insert a ?S)) = Max (insert a ?S)"
        by (intro Max_insert_above [where m = a]) auto
      then show ?thesis
        using False bne Cons.prems Cons.IH [OF Cons.prems]
        by (simp add: pick_last_def insert_commute)
    qed
  qed
qed

lemma foldl_pick_last:
  "foldl pick_last a bs =
     (if filter (\<lambda>x. x \<noteq> []) (a # bs) = [] then []
      else Max (set (filter (\<lambda>x. x \<noteq> []) (a # bs))))"
proof (cases "a = []")
  case False
  then show ?thesis by (simp add: foldl_pick_last_nonempty)
next
  case True
  have "foldl pick_last [] bs =
     (if filter (\<lambda>x. x \<noteq> []) bs = [] then []
      else Max (set (filter (\<lambda>x. x \<noteq> []) bs)))"
  proof (induction bs)
    case Nil
    then show ?case by simp
  next
    case (Cons b bs)
    show ?case
    proof (cases "b = []")
      case True
      then show ?thesis using Cons by (simp add: pick_last_def)
    next
      case False
      then have "pick_last [] b = b" by (simp add: pick_last_def)
      with False show ?thesis by (simp add: foldl_pick_last_nonempty)
    qed
  qed
  with True show ?thesis by simp
qed

section \<open>Structure of the result of normalize\_region\_stats\<close>

lemma filter_eq_Cons_key: "filter P xs = x # rest \<Longrightarrow> P x"
proof -
  assume h: "filter P xs = x # rest"
  have "x \<in> set (filter P xs)" unfolding h by simp
  then show "P x" by simp
qed

lemma group_regions_entry_key:
  assumes "(k, v) \<in> set (group_regions [] rs)"
  shows "region_key v = k"
proof -
  from assms obtain x rest where
    f: "filter (\<lambda>y. region_key y = k) rs = x # rest" and v: "v = foldl merge_region x rest"
    unfolding group_regions_merge_by by (rule merge_by_entries)
  from f have "region_key x = k" by (rule filter_eq_Cons_key)
  with v show ?thesis by simp
qed

lemma group_regions_keys:
  "map region_key (map snd (group_regions [] rs)) = map fst (group_regions [] rs)"
  by (auto simp: group_regions_entry_key)

lemma merge_surfaces_entry_code:
  assumes "(k, v) \<in> set (merge_surfaces [] ss)"
  shows "surface_code v = k"
proof -
  have key: "surface_code (foldl merge_surface x rest) = surface_code x" for x rest
    by (induction rest arbitrary: x) (simp_all add: merge_surface_def)
  from assms obtain x rest where
    f: "filter (\<lambda>y. surface_code y = k) ss = x # rest" and v: "v = foldl merge_surface x rest"
    unfolding merge_surfaces_merge_by by (rule merge_by_entries)
  from f have "surface_code x = k" by (rule filter_eq_Cons_key)
  with v key show ?thesis by simp
qed

lemma merge_surfaces_codes:
  "map surface_code (map snd (merge_surfaces [] ss)) = map fst (merge_surfaces [] ss)"
  by (auto simp: merge_surfaces_entry_code)

lemma merge_surfaces_codes_distinct:
  "distinct (map surface_code (map snd (merge_surfaces [] ss)))"
proof -
  have "distinct (map fst (merge_surfaces [] ss))"
    unfolding merge_surfaces_merge_by by (rule keys_merge_by_distinct) simp
  then show ?thesis by (simp only: merge_surfaces_codes)
qed

lemma region_key_merge_region_surfaces [simp]:
  "region_key (merge_region_surfaces r) = region_key r"
  by (simp add: merge_region_surfaces_def region_key_def)

lemma grouped_keys_distinct:
  "distinct (map region_key (map merge_region_surfaces (map snd (group_regions [] rs))))"
proof -
  have "map region_key (map merge_region_surfaces xs) = map region_key xs" for xs
    by (induction xs) simp_all
  then have "map region_key (map merge_region_surfaces (map snd (group_regions [] rs))) =
      map fst (group_regions [] rs)"
    by (simp only: group_regions_keys)
  moreover have "distinct (map fst (group_regions [] rs))"
    unfolding group_regions_merge_by by (rule keys_merge_by_distinct) simp
  ultimately show ?thesis by (simp only:)
qed

lemma distinct_map_sort_key:
  "distinct (map f xs) \<Longrightarrow> distinct (map f (sort_key g xs))"
  by (metis distinct_map distinct_sort set_sort)

lemma normalize_region_stats_structure:
  "distinct (map region_key (normalize_region_stats rs)) \<and>
   (\<forall>r \<in> set (normalize_region_stats rs).
      distinct (map surface_code (surface_serving_stats r))) \<and>
   sorted (map region_key (normalize_region_stats rs)) \<and>
   normalize_region_stats [] = []"
proof -
  have a: "distinct (map region_key (normalize_region_stats rs))"
    unfolding normalize_region_stats_def
    by (rule distinct_map_sort_key) (rule grouped_keys_distinct)
  have b: "\<forall>r \<in> set (normalize_region_stats rs).
      distinct (map surface_code (surface_serving_stats r))"
    unfolding normalize_region_stats_def
    by (auto simp: merge_region_surfaces_def merge_surfaces_codes_distinct simp del: map_map)
  have c: "sorted (map region_key (normalize_region_stats rs))"
    unfolding normalize_region_stats_def by (rule sorted_sort_key)
  have d: "normalize_region_stats [] = []"
    by (simp add: normalize_region_stats_def)
  from a b c d show ?thesis by blast
qed

text \<open>
  C6. The result has at most one region per (region\_code, region\_name), the surface
  list of every region has at most one entry per surface\_code, the regions are sorted
  ascending by (region\_code, region\_name), and the empty list gives the empty list.
\<close>

theorem normalize_region_stats_invariant:
  "distinct (map region_key (normalize_region_stats rs)) \<and>
   (\<forall>r \<in> set (normalize_region_stats rs).
      distinct (map surface_code (surface_serving_stats r))) \<and>
   sorted (map region_key (normalize_region_stats rs)) \<and>
   normalize_region_stats [] = []"
  by (rule normalize_region_stats_structure)

lemma normalize_sample:
  "normalize_region_stats [us1, region_sample ''CA'' ''Canada'' [], us2] =
    [\<lparr>region_code = ''CA'', region_name = ''Canada'', region_first_shown = ''2023-07-04'',
      region_last_shown = ''2024-05-17'', impressions = \<lparr>lower_bound = 100, upper_bound = 200\<rparr>,
      surface_serving_stats = []\<rparr>,
     \<lparr>region_code = ''US'', region_name = ''United States'', region_first_shown = ''2023-01-15'',
      region_last_shown = ''2024-05-17'', impressions = \<lparr>lower_bound = 150, upper_bound = 275\<rparr>,
      surface_serving_stats =
        [\<lparr>surface_code = ''SEARCH'', surface_name = ''SEARCH'',
          surface_impressions = \<lparr>lower_bound = 20, upper_bound = 40\<rparr>\<rparr>,
         \<lparr>surface_code = ''MAPS'', surface_name = ''MAPS'',
          surface_impressions = \<lparr>lower_bound = 10, upper_bound = 20\<rparr>\<rparr>]\<rparr>]"
  by (simp add: normalize_region_stats_def us1_def us2_def region_sample_def surface_sample_def
      region_key_def merge_region_def merge_region_surfaces_def add_impressions_def Let_def
      less_eq_char_def less_char_def)

theorem normalize_region_stats_invariant_witness:
  "map region_key (normalize_region_stats [us1, region_sample ''CA'' ''Canada'' [], us2]) =
     [(''CA'', ''Canada''), (''US'', ''United States'')] \<and>
   distinct (map region_key (normalize_region_stats [us1, region_sample ''CA'' ''Canada'' [], us2])) \<and>
   sorted (map region_key (normalize_region_stats [us1, region_sample ''CA'' ''Canada'' [], us2])) \<and>
   map (\<lambda>r. map surface_code (surface_serving_stats r))
     (normalize_region_stats [us1, region_sample ''CA'' ''Canada'' [], us2]) =
     [[], [''SEARCH'', ''MAPS'']] \<and>
   distinct [''SEARCH'', ''MAPS'']"
  using normalize_region_stats_invariant [of "[us1, region_sample ''CA'' ''Canada'' [], us2]"]
  by (simp add: normalize_sample region_key_def)

lemma merge_surfaces_id:
  assumes "distinct (map surface_code ss)"
  shows "map snd (merge_surfaces [] ss) = ss"
proof -
  have "merge_by surface_code merge_surface [] ss = [] @ map (\<lambda>x. (surface_code x, x)) ss"
    using assms by (intro merge_by_distinct_keys) simp_all
  then show ?thesis by (simp add: merge_surfaces_merge_by comp_def)
qed

lemma group_regions_id:
  assumes "distinct (map region_key rs)"
  shows "map snd (group_regions [] rs) = rs"
proof -
  have "merge_by region_key merge_region [] rs = [] @ map (\<lambda>x. (region_key x, x)) rs"
    using assms by (intro merge_by_distinct_keys) simp_all
  then show ?thesis by (simp add: group_regions_merge_by comp_def)
qed

text \<open>
  C7. Normalizing twice gives the same list as normalizing once: the result of one pass
  has one region per key and one surface per code, so a second pass merges nothing.
\<close>

theorem normalize_region_stats_idempotent:
  "normalize_region_stats (normalize_region_stats rs) = normalize_region_stats rs"
proof -
  let ?out = "normalize_region_stats rs"
  have inv: "distinct (map region_key ?out)"
    "\<forall>r \<in> set ?out. distinct (map surface_code (surface_serving_stats r))"
    "sorted (map region_key ?out)"
    using normalize_region_stats_structure [of rs] by blast+
  have g: "map snd (group_regions [] ?out) = ?out"
    using inv(1) by (rule group_regions_id)
  have "merge_region_surfaces r = r" if "r \<in> set ?out" for r
    using inv(2) that by (simp add: merge_region_surfaces_def merge_surfaces_id)
  then have m: "map merge_region_surfaces ?out = ?out"
    by (simp add: map_idI)
  have s: "sort_key region_key ?out = ?out"
    using inv(3) by (rule sort_key_id_if_sorted)
  show ?thesis
    unfolding normalize_region_stats_def [of ?out] g m s ..
qed

section \<open>What a merged region and a merged surface hold\<close>

lemma normalize_region_stats_entry:
  assumes "r \<in> set (normalize_region_stats rs)"
  obtains x rest where
    "filter (\<lambda>y. region_key y = region_key r) rs = x # rest"
    "r = merge_region_surfaces (foldl merge_region x rest)"
proof -
  from assms obtain k v where kv: "(k, v) \<in> set (group_regions [] rs)"
    and r: "r = merge_region_surfaces v"
    by (auto simp: normalize_region_stats_def)
  from kv obtain x rest where
    f: "filter (\<lambda>y. region_key y = k) rs = x # rest" and v: "v = foldl merge_region x rest"
    unfolding group_regions_merge_by by (rule merge_by_entries)
  from kv have "region_key v = k" by (rule group_regions_entry_key)
  with r have "region_key r = k" by simp
  with f v r show thesis using that by simp
qed

lemma merged_surface_entry:
  assumes "s \<in> set (map snd (merge_surfaces [] ss))"
  obtains x rest where
    "filter (\<lambda>y. surface_code y = surface_code s) ss = x # rest"
    "s = foldl merge_surface x rest"
proof -
  from assms obtain k where ks: "(k, s) \<in> set (merge_surfaces [] ss)" by auto
  from ks obtain x rest where
    f: "filter (\<lambda>y. surface_code y = k) ss = x # rest" and v: "s = foldl merge_surface x rest"
    unfolding merge_surfaces_merge_by by (rule merge_by_entries)
  from ks have "surface_code s = k" by (rule merge_surfaces_entry_code)
  with f v show thesis using that by simp
qed

lemma surface_foldl:
  "surface_name (foldl merge_surface x rest) = surface_name x"
  "lower_bound (surface_impressions (foldl merge_surface x rest)) =
     lower_bound (surface_impressions x) + (\<Sum>y\<leftarrow>rest. lower_bound (surface_impressions y))"
  "upper_bound (surface_impressions (foldl merge_surface x rest)) =
     upper_bound (surface_impressions x) + (\<Sum>y\<leftarrow>rest. upper_bound (surface_impressions y))"
  by (induction rest arbitrary: x) (simp_all add: merge_surface_def add_impressions_def)

lemma merge_region_surfaces_fields [simp]:
  "impressions (merge_region_surfaces r) = impressions r"
  "region_first_shown (merge_region_surfaces r) = region_first_shown r"
  "region_last_shown (merge_region_surfaces r) = region_last_shown r"
  "surface_serving_stats (merge_region_surfaces r) =
     map snd (merge_surfaces [] (surface_serving_stats r))"
  by (simp_all add: merge_region_surfaces_def)

lemma normalize_region_stats_keys:
  "set (map region_key (normalize_region_stats rs)) = set (map region_key rs)"
proof -
  let ?G = "group_regions [] rs"
  have "region_key (merge_region_surfaces (snd p)) = fst p" if "p \<in> set ?G" for p
    using that group_regions_entry_key [of "fst p" "snd p" rs] by simp
  then have "(\<lambda>p. region_key (merge_region_surfaces (snd p))) ` set ?G = fst ` set ?G"
    by (intro image_cong refl)
  then have "set (map region_key (normalize_region_stats rs)) = fst ` set ?G"
    by (simp add: normalize_region_stats_def image_image)
  also have "\<dots> = set (map region_key rs)"
    unfolding group_regions_merge_by using keys_merge_by_set [of region_key merge_region "[]" rs]
    by simp
  finally show ?thesis .
qed

text \<open>
  C4. The impression bounds of a merged region are the sums of the bounds of the input
  entries with its key. Its surfaces come from the concatenated surface lists of those
  entries: each merged surface keeps the name of the first surface with its code and
  carries the sums of the bounds of all surfaces with that code. Every key of the input
  has its merged region.
\<close>

theorem normalize_region_stats_sums:
  assumes "r \<in> set (normalize_region_stats rs)"
  shows
   "lower_bound (impressions r) =
      (\<Sum>x\<leftarrow>filter (\<lambda>y. region_key y = region_key r) rs. lower_bound (impressions x)) \<and>
    upper_bound (impressions r) =
      (\<Sum>x\<leftarrow>filter (\<lambda>y. region_key y = region_key r) rs. upper_bound (impressions x)) \<and>
    (\<forall>s \<in> set (surface_serving_stats r).
       surface_name s =
         surface_name (hd (filter (\<lambda>y. surface_code y = surface_code s)
           (concat (map surface_serving_stats
              (filter (\<lambda>y. region_key y = region_key r) rs))))) \<and>
       lower_bound (surface_impressions s) =
         (\<Sum>x\<leftarrow>filter (\<lambda>y. surface_code y = surface_code s)
           (concat (map surface_serving_stats
              (filter (\<lambda>y. region_key y = region_key r) rs))).
            lower_bound (surface_impressions x)) \<and>
       upper_bound (surface_impressions s) =
         (\<Sum>x\<leftarrow>filter (\<lambda>y. surface_code y = surface_code s)
           (concat (map surface_serving_stats
              (filter (\<lambda>y. region_key y = region_key r) rs))).
            upper_bound (surface_impressions x))) \<and>
    set (map surface_code (surface_serving_stats r)) =
      set (map surface_code (concat (map surface_serving_stats
        (filter (\<lambda>y. region_key y = region_key r) rs)))) \<and>
    set (map region_key (normalize_region_stats rs)) = set (map region_key rs)"
proof -
  let ?g = "filter (\<lambda>y. region_key y = region_key r) rs"
  let ?all = "concat (map surface_serving_stats ?g)"
  from assms obtain x rest where g: "?g = x # rest"
    and r: "r = merge_region_surfaces (foldl merge_region x rest)"
    by (rule normalize_region_stats_entry)
  have lo: "lower_bound (impressions r) = (\<Sum>x\<leftarrow>?g. lower_bound (impressions x))"
    unfolding g by (simp add: r impressions_foldl)
  have up: "upper_bound (impressions r) = (\<Sum>x\<leftarrow>?g. upper_bound (impressions x))"
    unfolding g by (simp add: r impressions_foldl)
  have surf: "surface_serving_stats r = map snd (merge_surfaces [] ?all)"
    unfolding g by (simp add: r surfaces_foldl)
  have each: "surface_name s = surface_name (hd (filter (\<lambda>y. surface_code y = surface_code s) ?all)) \<and>
       lower_bound (surface_impressions s) =
         (\<Sum>x\<leftarrow>filter (\<lambda>y. surface_code y = surface_code s) ?all.
            lower_bound (surface_impressions x)) \<and>
       upper_bound (surface_impressions s) =
         (\<Sum>x\<leftarrow>filter (\<lambda>y. surface_code y = surface_code s) ?all.
            upper_bound (surface_impressions x))"
    if "s \<in> set (surface_serving_stats r)" for s
  proof -
    from that obtain y more where
      f: "filter (\<lambda>y. surface_code y = surface_code s) ?all = y # more"
      and s: "s = foldl merge_surface y more"
      unfolding surf by (rule merged_surface_entry)
    show ?thesis
      unfolding f using surface_foldl [of y more] by (simp add: s [symmetric])
  qed
  have codes: "set (map surface_code (surface_serving_stats r)) = set (map surface_code ?all)"
  proof -
    have "set (map surface_code (surface_serving_stats r)) =
        set (map fst (merge_surfaces [] ?all))"
      unfolding surf by (simp only: merge_surfaces_codes)
    also have "\<dots> = set (map surface_code ?all)"
      unfolding merge_surfaces_merge_by
      using keys_merge_by_set [of surface_code merge_surface "[]" ?all] by simp
    finally show ?thesis .
  qed
  from lo up each codes normalize_region_stats_keys [of rs] show ?thesis by blast
qed

theorem normalize_region_stats_sums_witness:
  "last (normalize_region_stats [us1, region_sample ''CA'' ''Canada'' [], us2])
     \<in> set (normalize_region_stats [us1, region_sample ''CA'' ''Canada'' [], us2]) \<and>
   region_key (last (normalize_region_stats [us1, region_sample ''CA'' ''Canada'' [], us2])) =
     (''US'', ''United States'') \<and>
   lower_bound (impressions
     (last (normalize_region_stats [us1, region_sample ''CA'' ''Canada'' [], us2]))) = 100 + 50 \<and>
   upper_bound (impressions
     (last (normalize_region_stats [us1, region_sample ''CA'' ''Canada'' [], us2]))) = 200 + 75 \<and>
   map (\<lambda>s. (surface_name s, lower_bound (surface_impressions s),
              upper_bound (surface_impressions s)))
     (surface_serving_stats
       (last (normalize_region_stats [us1, region_sample ''CA'' ''Canada'' [], us2]))) =
     [(''SEARCH'', 10 + 10, 20 + 20), (''MAPS'', 10, 20)]"
  using normalize_region_stats_sums
    [of "last (normalize_region_stats [us1, region_sample ''CA'' ''Canada'' [], us2])"
        "[us1, region_sample ''CA'' ''Canada'' [], us2]"]
  by (simp add: normalize_sample region_key_def)

text \<open>
  C5. The first\_shown of a merged region is the lexicographically smallest non-empty
  first\_shown among the input entries with its key, and its last\_shown is the largest
  non-empty last\_shown among them; when all of them are empty, so is the merged value.
\<close>

theorem normalize_region_stats_dates:
  assumes "r \<in> set (normalize_region_stats rs)"
  shows
   "region_first_shown r =
      (if filter (\<lambda>d. d \<noteq> [])
            (map region_first_shown (filter (\<lambda>y. region_key y = region_key r) rs)) = []
       then []
       else Min (set (filter (\<lambda>d. d \<noteq> [])
            (map region_first_shown (filter (\<lambda>y. region_key y = region_key r) rs))))) \<and>
    region_last_shown r =
      (if filter (\<lambda>d. d \<noteq> [])
            (map region_last_shown (filter (\<lambda>y. region_key y = region_key r) rs)) = []
       then []
       else Max (set (filter (\<lambda>d. d \<noteq> [])
            (map region_last_shown (filter (\<lambda>y. region_key y = region_key r) rs)))))"
proof -
  let ?g = "filter (\<lambda>y. region_key y = region_key r) rs"
  from assms obtain x rest where g: "?g = x # rest"
    and r: "r = merge_region_surfaces (foldl merge_region x rest)"
    by (rule normalize_region_stats_entry)
  have f: "region_first_shown r =
      foldl pick_first (region_first_shown x) (map region_first_shown rest)"
    by (simp add: r first_shown_foldl)
  have l: "region_last_shown r =
      foldl pick_last (region_last_shown x) (map region_last_shown rest)"
    by (simp add: r last_shown_foldl)
  have m: "map h ?g = h x # map h rest" for h :: "RegionStat \<Rightarrow> string"
    unfolding g by simp
  show ?thesis
    unfolding f l foldl_pick_first foldl_pick_last m by (rule conjI; rule refl)
qed

theorem normalize_region_stats_dates_witness:
  "last (normalize_region_stats [us1, region_sample ''CA'' ''Canada'' [], us2])
     \<in> set (normalize_region_stats [us1, region_sample ''CA'' ''Canada'' [], us2]) \<and>
   map region_first_shown [us1, us2] = [''2023-07-04'', ''2023-01-15''] \<and>
   map region_last_shown [us1, us2] = [''2024-05-17'', ''''] \<and>
   region_first_shown
     (last (normalize_region_stats [us1, region_sample ''CA'' ''Canada'' [], us2])) = ''2023-01-15'' \<and>
   region_last_shown
     (last (normalize_region_stats [us1, region_sample ''CA'' ''Canada'' [], us2])) = ''2024-05-17''"
proof -
  let ?N = "normalize_region_stats [us1, region_sample ''CA'' ''Canada'' [], us2]"
  have mem: "last ?N \<in> set ?N"
    by (simp add: normalize_sample)
  have vals: "region_first_shown (last ?N) = ''2023-01-15''"
    "region_last_shown (last ?N) = ''2024-05-17''"
    by (simp_all add: normalize_sample)
  have inputs: "map region_first_shown [us1, us2] = [''2023-07-04'', ''2023-01-15'']"
    "map region_last_shown [us1, us2] = [''2024-05-17'', '''']"
    by (simp_all add: us1_def us2_def)
  from normalize_region_stats_dates [OF mem] mem vals inputs show ?thesis
    by blast
qed

section \<open>The impression-range parser when a bound fails\<close>

lemma py_int_no_attribute_error: "py_int x \<noteq> Inl AttributeError"
  by (cases x) (simp_all split: option.splits)

lemma parse_impression_range_dict:
  "parse_impression_range (PDict d) =
     Inr (case (py_int (py_or (case map_of d ''lowerBound'' of Some v \<Rightarrow> v | None \<Rightarrow> PInt 0) (PInt 0)),
                py_int (py_or (case map_of d ''upperBound'' of Some v \<Rightarrow> v | None \<Rightarrow> PInt 0) (PInt 0))) of
            (Inr l, Inr u) \<Rightarrow> \<lparr>lower_bound = l, upper_bound = u\<rparr>
          | _ \<Rightarrow> \<lparr>lower_bound = 0, upper_bound = 0\<rparr>)"
proof (cases "d = []")
  case True
  then show ?thesis
    by (simp add: parse_impression_range_def py_or_def)
next
  case False
  then show ?thesis
    using py_int_no_attribute_error
    by (auto simp: parse_impression_range_def bind_err_def Let_def
        split: sum.splits py_error.splits)
qed

text \<open>
  On \<open>None\<close> and on a dictionary whose values are the values of the model (no float) the
  parser returns.
\<close>

lemma parse_impression_range_total:
  "parse_impression_range PNone = Inr \<lparr>lower_bound = 0, upper_bound = 0\<rparr>"
  "\<exists>r. parse_impression_range (PDict d) = Inr r"
  by (simp add: parse_impression_range_def) (simp add: parse_impression_range_dict)

lemma parse_impression_range_spec_example:
  "parse_impression_range (PDict [(''lowerBound'', PStr ''abc''), (''upperBound'', PNone)]) =
     Inr \<lparr>lower_bound = 0, upper_bound = 0\<rparr>"
  by code_simp

text \<open>
  C3. The mapping parser does not keep a bound that converts when the other one fails:
  on \<open>{"lowerBound": "100", "upperBound": "abc"}\<close> the lower bound converts to 100,
  the upper bound raises ValueError, and the handler returns (0, 0). The parser on two
  strings returns (100, 0) on the same pair.
\<close>

theorem parse_impression_range_resets_both:
  "parse_impression_range (PDict [(''lowerBound'', PStr ''100''), (''upperBound'', PStr ''abc'')]) =
     Inr \<lparr>lower_bound = 0, upper_bound = 0\<rparr> \<and>
   py_int (PStr ''100'') = Inr 100 \<and>
   py_int (PStr ''abc'') = Inl ValueError \<and>
   parse_impressions_range (Some ''100'') (Some ''abc'') = \<lparr>lower_bound = 100, upper_bound = 0\<rparr>"
  by code_simp

section \<open>parse\_targeting\<close>

lemma parse_targeting_falsy: "\<not> truthy targeting_raw \<Longrightarrow> parse_targeting targeting_raw = Inr None"
  by (simp add: parse_targeting_def)

lemma ensure_bool_map_non_dict:
  "ensure_bool_map PNone = []" "ensure_bool_map (PBool b) = []" "ensure_bool_map (PInt n) = []"
  "ensure_bool_map (PStr s) = []" "ensure_bool_map (PList xs) = []"
  by simp_all

lemma parse_targeting_category_dict:
  assumes "d \<noteq> []"
    and "map_of d ''targetingCategory'' = None \<and> c = [] \<or>
         map_of d ''targetingCategory'' = Some (PDict c)"
  shows "parse_targeting (PDict d) =
     Inr (Some \<lparr>demographics =
                  ensure_bool_map (case map_of c ''demographics'' of Some v \<Rightarrow> v | None \<Rightarrow> PNone),
                geography =
                  ensure_bool_map (case map_of c ''geography'' of Some v \<Rightarrow> v | None \<Rightarrow> PNone),
                contextual =
                  ensure_bool_map (case map_of c ''contextual'' of Some v \<Rightarrow> v | None \<Rightarrow> PNone),
                advertiser_list =
                  ensure_bool_map (case map_of c ''advertiserList'' of Some v \<Rightarrow> v | None \<Rightarrow> PNone)\<rparr>)"
  using assms by (auto simp: parse_targeting_def bind_err_def)

text \<open>
  C8. \<open>parse_targeting\<close> raises on a well-formed dictionary: with
  \<open>{"targetingCategory": None}\<close> the input is truthy, \<open>category\<close> is \<open>None\<close>, and
  \<open>category.get\<close> raises AttributeError. The sub-values are guarded by
  \<open>_ensure_bool_map\<close>, the category itself is not.
\<close>

theorem parse_targeting_raises:
  "parse_targeting (PDict [(''targetingCategory'', PNone)]) = Inl AttributeError \<and>
   parse_targeting (PDict [(''targetingCategory'', PList [])]) = Inl AttributeError \<and>
   parse_targeting (PDict [(''targetingCategory'', PDict [(''demographics'', PNone)])]) =
     Inr (Some \<lparr>demographics = [], geography = [], contextual = [], advertiser_list = []\<rparr>)"
  by (simp add: parse_targeting_def bind_err_def)

section \<open>parse\_ads\<close>

lemma parse_ads_loop_eq:
  "parse_ads_loop parsed raws =
     parsed @ List.map_filter
       (\<lambda>raw. case ad_record_of_raw raw of Inr ad \<Rightarrow> Some ad | Inl exc \<Rightarrow> None) raws"
  by (induction raws arbitrary: parsed) (simp_all add: List.map_filter_simps split: sum.splits)

text \<open>
  C9. On every list of raw items \<open>parse_ads\<close> returns, and what it returns is the list
  of the records whose construction succeeded, in input order: an item whose
  construction raises is left out and the items after it are still processed.
\<close>

theorem parse_ads_skips_failures:
  "parse_ads (PList raws) =
     Inr (List.map_filter
       (\<lambda>raw. case ad_record_of_raw raw of Inr ad \<Rightarrow> Some ad | Inl exc \<Rightarrow> None) raws)"
  by (simp add: parse_ads_def bind_err_def parse_ads_loop_eq)

lemma parse_ads_sample:
  "ad_record_of_raw (PStr ''junk'') = Inl AttributeError \<and>
   ad_record_of_raw (PDict [(''targeting'', PDict [(''targetingCategory'', PNone)])]) =
     Inl AttributeError \<and>
   ad_record_of_raw (PDict []) = Inr (ad_bare\<lparr>ad_library_url := [], advertiser_id := [],
     advertiser_name := [], creative_id := [], format := [], first_shown := [], last_shown := []\<rparr>) \<and>
   parse_ads (PList [PStr ''junk'', PDict [], PDict [(''targeting'', PDict [(''targetingCategory'', PNone)])],
       PDict []]) =
     Inr [ad_bare\<lparr>ad_library_url := [], advertiser_id := [],
            advertiser_name := [], creative_id := [], format := [], first_shown := [], last_shown := []\<rparr>,
          ad_bare\<lparr>ad_library_url := [], advertiser_id := [],
            advertiser_name := [], creative_id := [], format := [], first_shown := [], last_shown := []\<rparr>]"
  by (simp add: parse_ads_def ad_record_of_raw_def bind_err_def parse_region_stats_def
      parse_targeting_def parse_variations_def ad_bare_def)

theorem parse_ads_skips_failures_witness:
  "parse_ads (PList [PStr ''junk'', PDict [], PDict [(''targeting'', PDict [(''targetingCategory'', PNone)])],
       PDict []]) =
     Inr [ad_bare\<lparr>ad_library_url := [], advertiser_id := [],
            advertiser_name := [], creative_id := [], format := [], first_shown := [], last_shown := []\<rparr>,
          ad_bare\<lparr>ad_library_url := [], advertiser_id := [],
            advertiser_name := [], creative_id := [], format := [], first_shown := [], last_shown := []\<rparr>]"
  using parse_ads_skips_failures
    [of "[PStr ''junk'', PDict [], PDict [(''targeting'', PDict [(''targetingCategory'', PNone)])],
       PDict []]"]
  by (simp add: parse_ads_sample List.map_filter_simps)

section \<open>What normalize\_region\_stats leaves unchanged in the store\<close>

lemma add_impressions_st_frame [simp]:
  "surface_at (add_impressions_st h a b) = surface_at h"
  "region_at (add_impressions_st h a b) = region_at h"
  by (simp_all add: add_impressions_st_def Let_def)



lemma key_at_cong: "region_at h' = region_at h \<Longrightarrow> key_at h' = key_at h"
  by (simp add: key_at_def fun_eq_iff)





section \<open>A list without duplicates is left as it is\<close>



lemma store_region_update_same:
  "h\<lparr>region_at := (region_at h)(a := (region_at h a)\<lparr>r_surface_serving_stats :=
      r_surface_serving_stats (region_at h a)\<rparr>)\<rparr> = h"
  by simp








end
